theory Spec2Isabelle
  imports Main
begin

section \<open>JavaScript values as the session module sees them\<close>

text \<open>
  The module \<open>index.js\<close> receives an options object and a Koa application, checks
  their shape with \<open>typeof\<close>, truthiness tests and \<open>==\<close> \<open>null\<close>, and installs three
  accessor properties on the context prototype. The values below carry what these
  tests observe: the primitive kinds, and objects as a table of own properties
  (found by a property read, own or inherited) tagged with what \<open>typeof\<close> and
  \<open>is.class\<close> answer for them. Objects are values here: an assignment
  \<open>o.k = v\<close> yields the updated object.

  The two symbols are those of lines 10 and 11; \<open>CONTEXT_SESSION_private\<close> stands for
  \<open>_CONTEXT_SESSION\<close>. A function is known by its identity: a function of the caller
  by a number, and by name the functions that \<open>index.js\<close> itself puts into the
  options or onto the context. A property is a data property or an accessor with
  its getter, its setter and its \<open>configurable\<close> attribute.
\<close>

datatype symbol = CONTEXT_SESSION | CONTEXT_SESSION_private

datatype pkey = Name string | Sym symbol

datatype jsval =
    JUndefined
  | JNull
  | JBool bool
  | JNum int
  | JNaN
  | JStr string
  | JObj kind "(pkey \<times> pdesc) list"
and kind =
    Plain
  | Function fnref
  | Class nat
and fnref =
    UserFn nat
  | util_encode
  | util_decode
  | uuid
  | prefix_uuid
  | get_CONTEXT_SESSION jsval
  | get_session
  | set_session
  | get_sessionOptions
and pdesc =
    Data jsval
  | Accessor "fnref option" "fnref option" bool

text \<open>What is thrown: the errors of the module itself, and any value thrown by code
  outside it (a downstream handler, a method of \<open>lib/context.js\<close>).\<close>

datatype error = TypeError string | AssertionError string | Thrown jsval

text \<open>Truthiness (\<open>if (v)\<close>, \<open>!v\<close>, \<open>a || b\<close>, \<open>a && b\<close>).\<close>

fun truthy :: "jsval \<Rightarrow> bool" where
  "truthy JUndefined = False"
| "truthy JNull = False"
| "truthy (JBool b) = b"
| "truthy (JNum n) = (n \<noteq> 0)"
| "truthy JNaN = False"
| "truthy (JStr s) = (s \<noteq> [])"
| "truthy (JObj k ps) = True"

text \<open>\<open>v == null\<close> holds of \<open>null\<close> and \<open>undefined\<close> only.\<close>

fun eq_null :: "jsval \<Rightarrow> bool" where
  "eq_null JUndefined = True"
| "eq_null JNull = True"
| "eq_null v = False"

text \<open>\<open>typeof v === 'function'\<close>, which is also what \<open>is.function\<close> tests;
  a class is a function for \<open>typeof\<close>.\<close>

fun is_function :: "jsval \<Rightarrow> bool" where
  "is_function (JObj (Function f) ps) = True"
| "is_function (JObj (Class c) ps) = True"
| "is_function v = False"

text \<open>\<open>is.class\<close>: a function whose source text starts with \<open>class\<close>.\<close>

fun is_class :: "jsval \<Rightarrow> bool" where
  "is_class (JObj (Class c) ps) = True"
| "is_class v = False"

fun is_object :: "jsval \<Rightarrow> bool" where
  "is_object (JObj k ps) = True"
| "is_object v = False"

text \<open>
  A property read \<open>v.k\<close> on a value that is neither \<open>null\<close> nor \<open>undefined\<close>. A
  primitive has none of the properties the module reads. The accessor properties of
  this model are the three that \<open>extendContext\<close> installs; the set-up code reads none
  of them, and their getters need a request, so they are run by \<open>read_property\<close>
  further down.
\<close>

fun get_prop :: "jsval \<Rightarrow> string \<Rightarrow> jsval" where
  "get_prop (JObj k ps) n =
     (case map_of ps (Name n) of Some (Data v) \<Rightarrow> v | _ \<Rightarrow> JUndefined)"
| "get_prop v n = JUndefined"

text \<open>\<open>'k' in o\<close> on an object.\<close>

fun has_prop :: "jsval \<Rightarrow> string \<Rightarrow> bool" where
  "has_prop (JObj k ps) n = (map_of ps (Name n) \<noteq> None)"
| "has_prop v n = False"

text \<open>\<open>o.hasOwnProperty(k)\<close>.\<close>

fun hasOwnProperty :: "jsval \<Rightarrow> pkey \<Rightarrow> bool" where
  "hasOwnProperty (JObj k ps) key = (map_of ps key \<noteq> None)"
| "hasOwnProperty v key = False"

text \<open>The table after \<open>o.k = v\<close> or after defining \<open>k\<close>: the entry is replaced where it
  stands, or added at the end.\<close>

fun upd :: "pkey \<Rightarrow> pdesc \<Rightarrow> (pkey \<times> pdesc) list \<Rightarrow> (pkey \<times> pdesc) list" where
  "upd key d [] = [(key, d)]"
| "upd key d ((k', d') # ps) = (if k' = key then (key, d) # ps else (k', d') # upd key d ps)"

text \<open>The assignment \<open>o.k = v\<close> on an object with a data property or no property \<open>k\<close>.\<close>

fun set_prop :: "jsval \<Rightarrow> string \<Rightarrow> jsval \<Rightarrow> jsval" where
  "set_prop (JObj k ps) n v = JObj k (upd (Name n) (Data v) ps)"
| "set_prop w n v = w"

text \<open>\<open>a || b\<close>.\<close>

definition js_or :: "jsval \<Rightarrow> jsval \<Rightarrow> jsval" where
  "js_or a b = (if truthy a then a else b)"

definition fn :: "fnref \<Rightarrow> jsval" where
  "fn f = JObj (Function f) []"

section \<open>Set-up: \<open>formatOpts\<close>\<close>

text \<open>\<open>if (o.k == null) o.k = true\<close> (lines 71 to 74).\<close>

definition default_true :: "string \<Rightarrow> jsval \<Rightarrow> jsval" where
  "default_true n w = (if eq_null (get_prop w n) then set_prop w n (JBool True) else w)"

text \<open>\<open>if (typeof o.k !== 'function') o.k = f\<close> (lines 79 to 84).\<close>

definition default_fn :: "string \<Rightarrow> fnref \<Rightarrow> jsval \<Rightarrow> jsval" where
  "default_fn n f w = (if \<not> is_function (get_prop w n) then set_prop w n (fn f) else w)"

text \<open>The assertions on \<open>opts.store\<close> (lines 86 to 91); \<open>None\<close> when all pass.\<close>

definition check_store :: "jsval \<Rightarrow> error option" where
  "check_store w =
     (let store = get_prop w ''store'' in
      if truthy store then
        if \<not> is_function (get_prop store ''get'') then
          Some (AssertionError ''store.get must be function'')
        else if \<not> is_function (get_prop store ''set'') then
          Some (AssertionError ''store.set must be function'')
        else if \<not> is_function (get_prop store ''destroy'') then
          Some (AssertionError ''store.destroy must be function'')
        else None
      else None)"

text \<open>The assertions on \<open>opts.externalKey\<close> (lines 93 to 97).\<close>

definition check_externalKey :: "jsval \<Rightarrow> error option" where
  "check_externalKey w =
     (let externalKey = get_prop w ''externalKey'' in
      if truthy externalKey then
        if \<not> is_function (get_prop externalKey ''get'') then
          Some (AssertionError ''externalKey.get must be function'')
        else if \<not> is_function (get_prop externalKey ''set'') then
          Some (AssertionError ''externalKey.set must be function'')
        else None
      else None)"

text \<open>The assertions on \<open>opts.ContextStore\<close> (lines 99 to 105). Reading a property of
  \<open>ContextStore.prototype\<close> throws a TypeError when the prototype is \<open>null\<close> or
  \<open>undefined\<close>.\<close>

definition check_ContextStore :: "jsval \<Rightarrow> error option" where
  "check_ContextStore w =
     (let ContextStore = get_prop w ''ContextStore'' in
      if truthy ContextStore then
        if \<not> is_class ContextStore then
          Some (AssertionError ''ContextStore must be a class'')
        else
          let prototype = get_prop ContextStore ''prototype'' in
          if eq_null prototype then
            Some (TypeError ''Cannot read properties of undefined'')
          else if \<not> is_function (get_prop prototype ''get'') then
            Some (AssertionError ''ContextStore.prototype.get must be function'')
          else if \<not> is_function (get_prop prototype ''set'') then
            Some (AssertionError ''ContextStore.prototype.set must be function'')
          else if \<not> is_function (get_prop prototype ''destroy'') then
            Some (AssertionError ''ContextStore.prototype.destroy must be function'')
          else None
      else None)"

text \<open>The identifier generator (lines 107 to 110).\<close>

definition default_genid :: "jsval \<Rightarrow> jsval" where
  "default_genid w =
     (if \<not> truthy (get_prop w ''genid'') then
        if truthy (get_prop w ''prefix'') then set_prop w ''genid'' (fn prefix_uuid)
        else set_prop w ''genid'' (fn uuid)
      else w)"

text \<open>Lines 62 to 84: the defaults, applied in the source's order.\<close>

definition apply_defaults :: "jsval \<Rightarrow> jsval" where
  "apply_defaults opts =
     (let opts = set_prop opts ''key'' (js_or (get_prop opts ''key'') (JStr ''koa:sess''));
          opts = (if \<not> has_prop opts ''maxAge''
                  then set_prop opts ''maxAge'' (get_prop opts ''maxage'') else opts);
          opts = default_true ''overwrite'' opts;
          opts = default_true ''httpOnly'' opts;
          opts = default_true ''signed'' opts;
          opts = default_true ''autoCommit'' opts;
          opts = default_fn ''encode'' util_encode opts;
          opts = default_fn ''decode'' util_decode opts
      in opts)"

text \<open>
  \<open>formatOpts\<close> (lines 61 to 113). The file is in strict mode, so the first
  assignment, \<open>opts.key = ...\<close>, throws a TypeError when \<open>opts\<close> is a truthy
  primitive. The result is the caller's object itself, updated in place.
\<close>

definition formatOpts :: "jsval \<Rightarrow> error + jsval" where
  "formatOpts opts0 =
     (let opts = js_or opts0 (JObj Plain []) in
      if \<not> is_object opts then Inl (TypeError ''Cannot create property key'')
      else
        let opts = apply_defaults opts in
        case check_store opts of Some e \<Rightarrow> Inl e | None \<Rightarrow>
        (case check_externalKey opts of Some e \<Rightarrow> Inl e | None \<Rightarrow>
        (case check_ContextStore opts of Some e \<Rightarrow> Inl e | None \<Rightarrow>
          Inr (default_genid opts))))"

section \<open>Set-up: \<open>extendContext\<close> and the module's export\<close>

text \<open>
  Defining an accessor property, as \<open>Object.defineProperties\<close> does for one entry whose
  descriptor gives \<open>get\<close>, maybe \<open>set\<close> and maybe \<open>configurable\<close>. A field the descriptor
  leaves out takes its default (\<open>undefined\<close>, \<open>false\<close>) on a new property and keeps its
  value on an existing accessor; a data property is converted and keeps its
  \<open>configurable\<close>, which is \<open>true\<close> for the data properties of this model. An existing
  property that is not configurable cannot be redefined with another getter.
\<close>

fun define_accessor ::
  "pkey \<Rightarrow> fnref \<Rightarrow> fnref option \<Rightarrow> bool option \<Rightarrow> jsval \<Rightarrow> error + jsval" where
  "define_accessor key g s c (JObj k ps) =
     (case map_of ps key of
        None \<Rightarrow>
          Inr (JObj k (upd key (Accessor (Some g) s (case c of None \<Rightarrow> False | Some b \<Rightarrow> b)) ps))
      | Some (Data v) \<Rightarrow>
          Inr (JObj k (upd key (Accessor (Some g) s (case c of None \<Rightarrow> True | Some b \<Rightarrow> b)) ps))
      | Some (Accessor g0 s0 True) \<Rightarrow>
          Inr (JObj k (upd key
                 (Accessor (Some g) (case s of None \<Rightarrow> s0 | Some f \<Rightarrow> Some f)
                    (case c of None \<Rightarrow> True | Some b \<Rightarrow> b)) ps))
      | Some (Accessor g0 s0 False) \<Rightarrow> Inl (TypeError ''Cannot redefine property''))"
| "define_accessor key g s c v = Inl (TypeError ''Object.defineProperties called on non-object'')"

text \<open>
  \<open>extendContext\<close> (lines 124 to 156). \<open>context.hasOwnProperty\<close> throws on \<open>null\<close> and
  \<open>undefined\<close>. \<open>Object.defineProperties\<close> defines the string keys in the order they are
  written, then the symbol key. The getter of the private slot closes over \<open>opts\<close>.
\<close>

definition extendContext :: "jsval \<Rightarrow> jsval \<Rightarrow> error + jsval" where
  "extendContext context opts =
     (if eq_null context then Inl (TypeError ''Cannot read properties of undefined'')
      else if hasOwnProperty context (Sym CONTEXT_SESSION) then Inr context
      else
        case define_accessor (Name ''session'') get_session (Some set_session) (Some True) context of
          Inl e \<Rightarrow> Inl e
        | Inr context \<Rightarrow>
        (case define_accessor (Name ''sessionOptions'') get_sessionOptions None None context of
          Inl e \<Rightarrow> Inl e
        | Inr context \<Rightarrow>
          define_accessor (Sym CONTEXT_SESSION) (get_CONTEXT_SESSION opts) None None context))"

text \<open>What a successful set-up leaves: the options the middleware closes over, and the
  application with its context prototype extended.\<close>

record installed =
  mw_opts :: jsval
  mw_app :: jsval

text \<open>The module's export (lines 24 to 51), up to the point where it returns the
  middleware.\<close>

definition module_exports :: "jsval \<Rightarrow> jsval \<Rightarrow> error + installed" where
  "module_exports opts0 app0 =
     (let (app, opts) =
            (if truthy opts0 \<and> is_function (get_prop opts0 ''use'')
             then (opts0, app0) else (app0, opts0))
      in
      if \<not> truthy app \<or> \<not> is_function (get_prop app ''use'') then
        Inl (TypeError ''app instance required: `session(opts, app)`'')
      else
        case formatOpts opts of
          Inl e \<Rightarrow> Inl e
        | Inr opts \<Rightarrow>
          (case extendContext (get_prop app ''context'') opts of
             Inl e \<Rightarrow> Inl e
           | Inr context \<Rightarrow> Inr \<lparr>mw_opts = opts, mw_app = set_prop app ''context'' context\<rparr>))"

section \<open>Requests: the private slot and the installed properties\<close>

text \<open>
  Koa creates one context object per request from the prototype \<open>app.context\<close>. The
  receiver of a property access, \<open>this\<close> in a getter or setter, is a request context,
  named by a number, or the prototype itself. After set-up \<open>index.js\<close> assigns to no
  property of the options object, so the getter and the middleware close over it as
  a value. The class \<open>ContextSession\<close> is \<open>lib/context.js\<close>, which
  is not part of \<open>index.js\<close>: its constructor and the four methods that \<open>index.js\<close> calls
  are parameters of the model. \<open>index.js\<close> reads two fields of an instance, \<open>store\<close> and
  \<open>opts\<close>; the rest of an instance is \<open>cs_rest\<close>.
\<close>

datatype receiver = Proto | Req nat

record 'p ContextSession =
  cs_store :: jsval
  cs_opts :: jsval
  cs_rest :: 'p

text \<open>
  The state that requests run in. \<open>slot w c\<close> is the own property \<open>_CONTEXT_SESSION\<close> of
  the object \<open>c\<close>, a reference into \<open>heap\<close> when set. \<open>heap\<close> holds every
  \<open>ContextSession\<close> that line 136 has constructed, in order, each with the object it
  was constructed for; a reference is a position in it. \<open>own\<close> holds the own data
  properties that an assignment created on an object. \<open>ext\<close> is everything else: the
  request, the response and its cookies, the backend.
\<close>

record ('p, 'x) world =
  slot :: "receiver \<Rightarrow> nat option"
  heap :: "(receiver \<times> 'p ContextSession) list"
  own :: "receiver \<Rightarrow> string \<Rightarrow> jsval option"
  ext :: 'x

type_synonym ('p, 'x) cs_method =
  "'p ContextSession \<Rightarrow> 'x \<Rightarrow> (error + jsval) \<times> 'p ContextSession \<times> 'x"

record ('p, 'x) lib =
  new_ContextSession :: "receiver \<Rightarrow> jsval \<Rightarrow> 'p ContextSession"
  cs_get :: "('p, 'x) cs_method"
  cs_set :: "jsval \<Rightarrow> ('p, 'x) cs_method"
  cs_initFromExternal :: "('p, 'x) cs_method"
  cs_commit :: "('p, 'x) cs_method"

definition init_world :: "'x \<Rightarrow> ('p, 'x) world" where
  "init_world x = \<lparr>slot = (\<lambda>c. None), heap = [], own = (\<lambda>c n. None), ext = x\<rparr>"

text \<open>The read \<open>this[_CONTEXT_SESSION]\<close> of line 134: the own slot of \<open>this\<close>, and for a
  request context without one the slot of the prototype, which it inherits.\<close>

definition private_slot :: "('p, 'x) world \<Rightarrow> receiver \<Rightarrow> nat option" where
  "private_slot w c =
     (case slot w c of
        Some r \<Rightarrow> Some r
      | None \<Rightarrow> (case c of Proto \<Rightarrow> None | Req k \<Rightarrow> slot w Proto))"

text \<open>The getter of the private slot (lines 132 to 138), run with \<open>this\<close> = \<open>c\<close>: the
  cached reference, or a new instance stored in the own slot of \<open>this\<close>.\<close>

definition run_get_CONTEXT_SESSION ::
  "('p, 'x) lib \<Rightarrow> jsval \<Rightarrow> receiver \<Rightarrow> ('p, 'x) world \<Rightarrow> nat \<times> ('p, 'x) world" where
  "run_get_CONTEXT_SESSION L opts c w =
     (case private_slot w c of
        Some r \<Rightarrow> (r, w)
      | None \<Rightarrow>
          (length (heap w),
           w\<lparr>heap := heap w @ [(c, new_ContextSession L c opts)],
             slot := (slot w)(c \<mapsto> length (heap w))\<rparr>))"

text \<open>The descriptor of a property of the prototype, and the getter of an accessor.\<close>

fun proto_desc :: "jsval \<Rightarrow> pkey \<Rightarrow> pdesc option" where
  "proto_desc (JObj k ps) key = map_of ps key"
| "proto_desc v key = None"

fun getter_of :: "pdesc option \<Rightarrow> fnref option" where
  "getter_of (Some (Accessor (Some g) s b)) = Some g"
| "getter_of d = None"

text \<open>The options that the getter of lines 132 to 138 closes over.\<close>

fun closed_over :: "fnref \<Rightarrow> jsval option" where
  "closed_over (get_CONTEXT_SESSION opts) = Some opts"
| "closed_over g = None"

text \<open>\<open>ctx[CONTEXT_SESSION]\<close>: the property is found on the prototype \<open>context\<close>;
  \<open>None\<close> is \<open>undefined\<close>, when the prototype has no such getter.\<close>

definition read_CONTEXT_SESSION ::
  "('p, 'x) lib \<Rightarrow> jsval \<Rightarrow> receiver \<Rightarrow> ('p, 'x) world \<Rightarrow> (nat \<times> ('p, 'x) world) option" where
  "read_CONTEXT_SESSION L context c w =
     (case getter_of (proto_desc context (Sym CONTEXT_SESSION)) of
        Some g \<Rightarrow>
          (case closed_over g of
             Some opts \<Rightarrow> Some (run_get_CONTEXT_SESSION L opts c w)
           | None \<Rightarrow> None)
      | None \<Rightarrow> None)"

text \<open>The instance a reference stands for.\<close>

definition deref :: "('p, 'x) world \<Rightarrow> nat \<Rightarrow> 'p ContextSession option" where
  "deref w r = (if r < length (heap w) then Some (snd (heap w ! r)) else None)"

text \<open>A method call \<open>sess.m(...)\<close> on the instance at reference \<open>r\<close>.\<close>

definition call_method ::
  "('p, 'x) cs_method \<Rightarrow> nat \<Rightarrow> ('p, 'x) world \<Rightarrow> (error + jsval) \<times> ('p, 'x) world" where
  "call_method m r w =
     (case deref w r of
        Some s \<Rightarrow>
          (case m s (ext w) of
             (res, s', x') \<Rightarrow> (res, w\<lparr>heap := (heap w)[r := (fst (heap w ! r), s')], ext := x'\<rparr>))
      | None \<Rightarrow> (Inl (TypeError ''Cannot read properties of undefined''), w))"

text \<open>
  The getters of lines 142 to 144 and 151 to 153, run with \<open>this\<close> = context \<open>c\<close>. A
  getter that is not of this module is outside the model and yields \<open>undefined\<close>.
\<close>

fun run_getter ::
  "('p, 'x) lib \<Rightarrow> jsval \<Rightarrow> fnref \<Rightarrow> receiver \<Rightarrow> ('p, 'x) world \<Rightarrow> (error + jsval) \<times> ('p, 'x) world" where
  "run_getter L context get_session c w =
     (case read_CONTEXT_SESSION L context c w of
        None \<Rightarrow> (Inl (TypeError ''Cannot read properties of undefined''), w)
      | Some (r, w') \<Rightarrow> call_method (cs_get L) r w')"
| "run_getter L context get_sessionOptions c w =
     (case read_CONTEXT_SESSION L context c w of
        None \<Rightarrow> (Inl (TypeError ''Cannot read properties of undefined''), w)
      | Some (r, w') \<Rightarrow>
          (case deref w' r of
             Some s \<Rightarrow> (Inr (cs_opts s), w')
           | None \<Rightarrow> (Inl (TypeError ''Cannot read properties of undefined''), w')))"
| "run_getter L context g c w = (Inr JUndefined, w)"

text \<open>The setter of lines 145 to 147. A setter that is not of this module is outside
  the model and does nothing.\<close>

fun run_setter ::
  "('p, 'x) lib \<Rightarrow> jsval \<Rightarrow> fnref \<Rightarrow> receiver \<Rightarrow> jsval \<Rightarrow> ('p, 'x) world \<Rightarrow>
   error option \<times> ('p, 'x) world" where
  "run_setter L context set_session c v w =
     (case read_CONTEXT_SESSION L context c w of
        None \<Rightarrow> (Some (TypeError ''Cannot read properties of undefined''), w)
      | Some (r, w') \<Rightarrow>
          (case call_method (cs_set L v) r w' of
             (Inl e, w'') \<Rightarrow> (Some e, w'')
           | (Inr u, w'') \<Rightarrow> (None, w'')))"
| "run_setter L context f c v w = (None, w)"

text \<open>
  The property \<open>n\<close> that the object \<open>c\<close> finds beyond its own data properties: for the
  prototype, what \<open>context\<close> had at set-up; for a request context, a data property
  that an assignment has since put on the prototype, else what \<open>context\<close> had.
\<close>

definition inherited :: "('p, 'x) world \<Rightarrow> jsval \<Rightarrow> receiver \<Rightarrow> string \<Rightarrow> pdesc option" where
  "inherited w context c n =
     (case c of
        Proto \<Rightarrow> proto_desc context (Name n)
      | Req k \<Rightarrow>
          (case own w Proto n of
             Some v \<Rightarrow> Some (Data v)
           | None \<Rightarrow> proto_desc context (Name n)))"

text \<open>
  A property read \<open>c.n\<close>: an own data property, else the property found through the
  prototype, whose getter runs with \<open>this\<close> = \<open>c\<close>.
\<close>

definition read_property ::
  "('p, 'x) lib \<Rightarrow> jsval \<Rightarrow> receiver \<Rightarrow> string \<Rightarrow> ('p, 'x) world \<Rightarrow> (error + jsval) \<times> ('p, 'x) world" where
  "read_property L context c n w =
     (case own w c n of
        Some v \<Rightarrow> (Inr v, w)
      | None \<Rightarrow>
         (case inherited w context c n of
            Some (Data v) \<Rightarrow> (Inr v, w)
          | Some (Accessor (Some g) s b) \<Rightarrow> run_getter L context g c w
          | _ \<Rightarrow> (Inr JUndefined, w)))"

text \<open>
  An assignment \<open>c.n = v\<close>. An accessor found through the prototype decides: its
  setter runs, and without a setter nothing is written; the assignment then throws
  a TypeError in strict code and is ignored otherwise. With no accessor the value
  becomes an own data property of \<open>c\<close>.
\<close>

definition write_property ::
  "('p, 'x) lib \<Rightarrow> jsval \<Rightarrow> bool \<Rightarrow> receiver \<Rightarrow> string \<Rightarrow> jsval \<Rightarrow> ('p, 'x) world \<Rightarrow>
   error option \<times> ('p, 'x) world" where
  "write_property L context strict c n v w =
     (let create = (None, w\<lparr>own := (own w)(c := (own w c)(n \<mapsto> v))\<rparr>) in
      if own w c n \<noteq> None then create
      else
        case inherited w context c n of
          Some (Accessor g (Some f) b) \<Rightarrow> run_setter L context f c v w
        | Some (Accessor g None b) \<Rightarrow>
            (if strict then (Some (TypeError ''Cannot set property which has only a getter''), w)
             else (None, w))
        | _ \<Rightarrow> create)"

section \<open>The middleware\<close>

text \<open>The calls the middleware awaits, in the order it makes them.\<close>

datatype event = Load | Downstream | Commit

text \<open>
  The middleware \<open>session(ctx, next)\<close> (lines 38 to 50) for request context \<open>c\<close>, in two
  parts. \<open>session_load\<close> is lines 39 and 40, outside the \<open>try\<close>: it reads \<open>sess\<close> through
  the getter and, when \<open>sess.store\<close> is truthy, awaits \<open>sess.initFromExternal()\<close>. Its
  result is the reference \<open>sess\<close>, or what was thrown.
\<close>

definition session_load ::
  "('p, 'x) lib \<Rightarrow> jsval \<Rightarrow> receiver \<Rightarrow> ('p, 'x) world \<Rightarrow>
   (error + nat) \<times> ('p, 'x) world \<times> event list" where
  "session_load L context c w =
     (case read_CONTEXT_SESSION L context c w of
        None \<Rightarrow> (Inl (TypeError ''Cannot read properties of undefined''), w, [])
      | Some (r, w1) \<Rightarrow>
        (case deref w1 r of
           None \<Rightarrow> (Inl (TypeError ''Cannot read properties of undefined''), w1, [])
         | Some sess \<Rightarrow>
             if truthy (cs_store sess) then
               (case call_method (cs_initFromExternal L) r w1 of
                  (Inl e, w2) \<Rightarrow> (Inl e, w2, [Load])
                | (Inr u, w2) \<Rightarrow> (Inr r, w2, [Load]))
             else (Inr r, w1, [])))"

text \<open>
  \<open>session_try\<close> is lines 41 to 49: \<open>next\<close> is the downstream chain, any function of the
  state that returns or throws. The \<open>catch\<close> rethrows. In \<open>finally\<close>, when
  \<open>opts.autoCommit\<close> is truthy, \<open>sess.commit()\<close> is awaited; an error thrown there
  replaces the outcome of \<open>next\<close>.
\<close>

definition session_try ::
  "('p, 'x) lib \<Rightarrow> jsval \<Rightarrow> nat \<Rightarrow>
   (('p, 'x) world \<Rightarrow> error option \<times> ('p, 'x) world) \<Rightarrow>
   ('p, 'x) world \<Rightarrow> error option \<times> ('p, 'x) world \<times> event list" where
  "session_try L opts r next w2 =
     (let (outcome, w3) = next w2 in
      if truthy (get_prop opts ''autoCommit'') then
        (case call_method (cs_commit L) r w3 of
           (Inl e, w4) \<Rightarrow> (Some e, w4, [Downstream, Commit])
         | (Inr u, w4) \<Rightarrow> (outcome, w4, [Downstream, Commit]))
      else (outcome, w3, [Downstream]))"

text \<open>
  The whole middleware. \<open>opts\<close> is the options object it closes over and \<open>context\<close> the
  prototype of \<open>ctx\<close>. The result is what the middleware throws (\<open>None\<close> when it
  returns), the state it leaves, and the calls it made.
\<close>

definition session ::
  "('p, 'x) lib \<Rightarrow> jsval \<Rightarrow> jsval \<Rightarrow> receiver \<Rightarrow>
   (('p, 'x) world \<Rightarrow> error option \<times> ('p, 'x) world) \<Rightarrow>
   ('p, 'x) world \<Rightarrow> error option \<times> ('p, 'x) world \<times> event list" where
  "session L opts context c next w =
     (case session_load L context c w of
        (Inl e, w2, t) \<Rightarrow> (Some e, w2, t)
      | (Inr r, w2, t) \<Rightarrow>
          (case session_try L opts r next w2 of
             (res, w', t') \<Rightarrow> (res, w', t @ t')))"

section \<open>The identifier generator\<close>

text \<open>
  \<open>${v}\<close> in a template literal: a string as it is. What it makes of any other
  value (the number formatting of the engine, the \<open>toString\<close> of an object, which
  may throw) is not in \<open>index.js\<close> and is the parameter \<open>to_str\<close>.
\<close>

definition template :: "(jsval \<Rightarrow> error + string) \<Rightarrow> jsval \<Rightarrow> error + string" where
  "template to_str v = (case v of JStr s \<Rightarrow> Inr s | _ \<Rightarrow> to_str v)"

text \<open>
  The call \<open>opts.genid()\<close>. \<open>u\<close> is what \<open>uuid()\<close> returns at this call, and \<open>user n\<close> what
  the caller's function \<open>n\<close> returns. The closure of line 108 reads \<open>opts.prefix\<close> when it
  is called and puts it in front of \<open>uuid()\<close>.
\<close>

definition call_genid ::
  "(nat \<Rightarrow> jsval) \<Rightarrow> (jsval \<Rightarrow> error + string) \<Rightarrow> string \<Rightarrow> jsval \<Rightarrow> error + jsval" where
  "call_genid user to_str u opts =
     (case get_prop opts ''genid'' of
        JObj (Function uuid) ps \<Rightarrow> Inr (JStr u)
      | JObj (Function prefix_uuid) ps \<Rightarrow>
          (case template to_str (get_prop opts ''prefix'') of
             Inl e \<Rightarrow> Inl e
           | Inr p \<Rightarrow> Inr (JStr (p @ u)))
      | JObj (Function (UserFn n)) ps \<Rightarrow> Inr (user n)
      | _ \<Rightarrow> Inl (TypeError ''opts.genid is not a function''))"

section \<open>Notions the properties are stated with\<close>

text \<open>The test of lines 27 and 31: a truthy value with a function \<open>use\<close>.\<close>

definition has_use :: "jsval \<Rightarrow> bool" where
  "has_use v = (truthy v \<and> is_function (get_prop v ''use''))"

text \<open>An options object with a backend or resolver of the wrong shape: a store without
  a function \<open>get\<close>, \<open>set\<close> or \<open>destroy\<close>, an external key without a function \<open>get\<close> or
  \<open>set\<close>, a \<open>ContextStore\<close> that is not a class or whose prototype misses one of the
  three.\<close>

definition wrong_store :: "jsval \<Rightarrow> bool" where
  "wrong_store opts =
     (let store = get_prop opts ''store'' in
      truthy store \<and>
      (\<not> is_function (get_prop store ''get'') \<or> \<not> is_function (get_prop store ''set'') \<or>
       \<not> is_function (get_prop store ''destroy'')))"

definition wrong_externalKey :: "jsval \<Rightarrow> bool" where
  "wrong_externalKey opts =
     (let externalKey = get_prop opts ''externalKey'' in
      truthy externalKey \<and>
      (\<not> is_function (get_prop externalKey ''get'') \<or> \<not> is_function (get_prop externalKey ''set'')))"

definition wrong_ContextStore :: "jsval \<Rightarrow> bool" where
  "wrong_ContextStore opts =
     (let ContextStore = get_prop opts ''ContextStore''; prototype = get_prop ContextStore ''prototype'' in
      truthy ContextStore \<and>
      (\<not> is_class ContextStore \<or> \<not> is_function (get_prop prototype ''get'') \<or>
       \<not> is_function (get_prop prototype ''set'') \<or> \<not> is_function (get_prop prototype ''destroy'')))"


text \<open>What code does with a context object: it reads a property, assigns to one (in
  strict code or not), or reads the private slot's getter as line 39 does. \<open>run\<close>
  performs a sequence of such accesses; \<open>receiver_of\<close> is the object accessed.\<close>

datatype access =
    Read receiver string
  | Write receiver bool string jsval
  | Touch receiver


fun step :: "('p, 'x) lib \<Rightarrow> jsval \<Rightarrow> access \<Rightarrow> ('p, 'x) world \<Rightarrow> ('p, 'x) world" where
  "step L context (Read c n) w = snd (read_property L context c n w)"
| "step L context (Write c strict n v) w = snd (write_property L context strict c n v w)"
| "step L context (Touch c) w =
     (case read_CONTEXT_SESSION L context c w of None \<Rightarrow> w | Some (r, w') \<Rightarrow> w')"

fun run :: "('p, 'x) lib \<Rightarrow> jsval \<Rightarrow> access list \<Rightarrow> ('p, 'x) world \<Rightarrow> ('p, 'x) world" where
  "run L context [] w = w"
| "run L context (a # as) w = run L context as (step L context a w)"

text \<open>The slots and the heap agree: a slot refers to an instance constructed for its
  own context, and every instance is in the slot of the context it was constructed
  for.\<close>

definition wf_world :: "('p, 'x) world \<Rightarrow> bool" where
  "wf_world w =
     ((\<forall>c r. slot w c = Some r \<longrightarrow> r < length (heap w) \<and> fst (heap w ! r) = c) \<and>
      (\<forall>i < length (heap w). slot w (fst (heap w ! i)) = Some i))"

section \<open>Example inputs\<close>

text \<open>Options that only switch signing off, and what \<open>formatOpts\<close> makes of them.\<close>

definition ex_opts :: jsval where
  "ex_opts = JObj Plain [(Name ''signed'', Data (JBool False))]"

definition ex_formatted :: jsval where
  "ex_formatted = JObj Plain
     [(Name ''signed'', Data (JBool False)),
      (Name ''key'', Data (JStr ''koa:sess'')),
      (Name ''maxAge'', Data JUndefined),
      (Name ''overwrite'', Data (JBool True)),
      (Name ''httpOnly'', Data (JBool True)),
      (Name ''autoCommit'', Data (JBool True)),
      (Name ''encode'', Data (fn util_encode)),
      (Name ''decode'', Data (fn util_decode)),
      (Name ''genid'', Data (fn uuid))]"

text \<open>An application with an empty context prototype, the prototype after
  \<open>extendContext\<close> with the options above, and the application after set-up.\<close>

definition ex_app :: jsval where
  "ex_app = JObj Plain
     [(Name ''use'', Data (fn (UserFn 0))), (Name ''context'', Data (JObj Plain []))]"

definition ex_context :: jsval where
  "ex_context = JObj Plain
     [(Name ''session'', Accessor (Some get_session) (Some set_session) True),
      (Name ''sessionOptions'', Accessor (Some get_sessionOptions) None False),
      (Sym CONTEXT_SESSION, Accessor (Some (get_CONTEXT_SESSION ex_formatted)) None False)]"

definition ex_installed_app :: jsval where
  "ex_installed_app = JObj Plain
     [(Name ''use'', Data (fn (UserFn 0))), (Name ''context'', Data ex_context)]"

text \<open>Options whose store has a \<open>get\<close> only.\<close>

definition ex_bad_opts :: jsval where
  "ex_bad_opts = JObj Plain
     [(Name ''store'', Data (JObj Plain [(Name ''get'', Data (fn (UserFn 1)))]))]"

text \<open>Options with a prefix, and options with a generator of the caller's and a
  prefix; \<open>ex_user\<close> is what the caller's functions return.\<close>

definition ex_prefix_opts :: jsval where
  "ex_prefix_opts = JObj Plain [(Name ''prefix'', Data (JStr ''app:''))]"

definition ex_prefix_formatted :: jsval where
  "ex_prefix_formatted = JObj Plain
     [(Name ''prefix'', Data (JStr ''app:'')),
      (Name ''key'', Data (JStr ''koa:sess'')),
      (Name ''maxAge'', Data JUndefined),
      (Name ''overwrite'', Data (JBool True)),
      (Name ''httpOnly'', Data (JBool True)),
      (Name ''signed'', Data (JBool True)),
      (Name ''autoCommit'', Data (JBool True)),
      (Name ''encode'', Data (fn util_encode)),
      (Name ''decode'', Data (fn util_decode)),
      (Name ''genid'', Data (fn prefix_uuid))]"

definition ex_genid_opts :: jsval where
  "ex_genid_opts = JObj Plain
     [(Name ''genid'', Data (fn (UserFn 2))), (Name ''prefix'', Data (JStr ''app:''))]"

definition ex_genid_formatted :: jsval where
  "ex_genid_formatted = JObj Plain
     [(Name ''genid'', Data (fn (UserFn 2))),
      (Name ''prefix'', Data (JStr ''app:'')),
      (Name ''key'', Data (JStr ''koa:sess'')),
      (Name ''maxAge'', Data JUndefined),
      (Name ''overwrite'', Data (JBool True)),
      (Name ''httpOnly'', Data (JBool True)),
      (Name ''signed'', Data (JBool True)),
      (Name ''autoCommit'', Data (JBool True)),
      (Name ''encode'', Data (fn util_encode)),
      (Name ''decode'', Data (fn util_decode))]"

definition ex_user :: "nat \<Rightarrow> jsval" where
  "ex_user n = JStr ''custom-id''"

text \<open>Options with the number 7 as prefix, and a \<open>to_str\<close> that shows it.\<close>

definition ex_num_opts :: jsval where
  "ex_num_opts = JObj Plain [(Name ''prefix'', Data (JNum 7))]"

definition ex_num_formatted :: jsval where
  "ex_num_formatted = JObj Plain
     [(Name ''prefix'', Data (JNum 7)),
      (Name ''key'', Data (JStr ''koa:sess'')),
      (Name ''maxAge'', Data JUndefined),
      (Name ''overwrite'', Data (JBool True)),
      (Name ''httpOnly'', Data (JBool True)),
      (Name ''signed'', Data (JBool True)),
      (Name ''autoCommit'', Data (JBool True)),
      (Name ''encode'', Data (fn util_encode)),
      (Name ''decode'', Data (fn util_decode)),
      (Name ''genid'', Data (fn prefix_uuid))]"

definition ex_to_str :: "jsval \<Rightarrow> error + string" where
  "ex_to_str v = Inr ''7''"

text \<open>
  A stand-in for \<open>lib/context.js\<close>. The external state counts the writes to the
  backend and the cookies. The constructor keeps the options and takes the store
  from them; \<open>commit\<close> writes once; the other methods only return. In the failing
  variant \<open>commit\<close> throws.
\<close>

definition ex_lib :: "(unit, nat) lib" where
  "ex_lib =
     \<lparr>new_ContextSession =
        (\<lambda>c opts. \<lparr>cs_store = get_prop opts ''store'', cs_opts = opts, cs_rest = ()\<rparr>),
      cs_get = (\<lambda>s x. (Inr (JObj Plain []), s, x)),
      cs_set = (\<lambda>v s x. (Inr JUndefined, s, x)),
      cs_initFromExternal = (\<lambda>s x. (Inr JUndefined, s, x)),
      cs_commit = (\<lambda>s x. (Inr JUndefined, s, Suc x))\<rparr>"

definition ex_failing_lib :: "(unit, nat) lib" where
  "ex_failing_lib = ex_lib\<lparr>cs_commit := (\<lambda>s x. (Inl (Thrown (JStr ''commit failed'')), s, x))\<rparr>"

text \<open>A downstream chain that returns, and one that throws.\<close>

definition ex_next_returns :: "(unit, nat) world \<Rightarrow> error option \<times> (unit, nat) world" where
  "ex_next_returns w = (None, w)"

definition ex_next_throws :: "(unit, nat) world \<Rightarrow> error option \<times> (unit, nat) world" where
  "ex_next_throws w = (Some (Thrown (JStr ''handler failed'')), w)"

text \<open>The state after the first access of request context 0, under \<open>ex_context\<close>.\<close>

definition ex_session :: "unit ContextSession" where
  "ex_session = \<lparr>cs_store = JUndefined, cs_opts = ex_formatted, cs_rest = ()\<rparr>"

definition ex_world :: "(unit, nat) world" where
  "ex_world = \<lparr>slot = [Req 0 \<mapsto> 0], heap = [(Req 0, ex_session)], own = (\<lambda>c. Map.empty), ext = 0\<rparr>"

text \<open>The state after one read of \<open>app.context.sessionOptions\<close>, the receiver being
  the prototype.\<close>

definition ex_proto_world :: "(unit, nat) world" where
  "ex_proto_world =
     \<lparr>slot = [Proto \<mapsto> 0], heap = [(Proto, ex_session)], own = (\<lambda>c. Map.empty), ext = 0\<rparr>"

text \<open>Three accesses by two requests, and the state after them.\<close>

definition ex_accesses :: "access list" where
  "ex_accesses = [Read (Req 0) ''session'', Write (Req 5) True ''session'' JNull, Read (Req 0) ''sessionOptions'']"

definition ex_world2 :: "(unit, nat) world" where
  "ex_world2 =
     \<lparr>slot = [Req 0 \<mapsto> 0, Req 5 \<mapsto> 1], heap = [(Req 0, ex_session), (Req 5, ex_session)],
      own = (\<lambda>c. Map.empty), ext = 0\<rparr>"

text \<open>Formatted options with a store, the prototype extended with them, and the
  state after the first access of request context 0.\<close>

definition ex_store :: jsval where
  "ex_store = JObj Plain
     [(Name ''get'', Data (fn (UserFn 3))),
      (Name ''set'', Data (fn (UserFn 4))),
      (Name ''destroy'', Data (fn (UserFn 5)))]"

definition ex_store_formatted :: jsval where
  "ex_store_formatted = JObj Plain
     [(Name ''store'', Data ex_store),
      (Name ''key'', Data (JStr ''koa:sess'')),
      (Name ''maxAge'', Data JUndefined),
      (Name ''overwrite'', Data (JBool True)),
      (Name ''httpOnly'', Data (JBool True)),
      (Name ''signed'', Data (JBool True)),
      (Name ''autoCommit'', Data (JBool True)),
      (Name ''encode'', Data (fn util_encode)),
      (Name ''decode'', Data (fn util_decode)),
      (Name ''genid'', Data (fn uuid))]"

definition ex_store_context :: jsval where
  "ex_store_context = JObj Plain
     [(Name ''session'', Accessor (Some get_session) (Some set_session) True),
      (Name ''sessionOptions'', Accessor (Some get_sessionOptions) None False),
      (Sym CONTEXT_SESSION, Accessor (Some (get_CONTEXT_SESSION ex_store_formatted)) None False)]"

definition ex_store_session :: "unit ContextSession" where
  "ex_store_session = \<lparr>cs_store = ex_store, cs_opts = ex_store_formatted, cs_rest = ()\<rparr>"

definition ex_store_world :: "(unit, nat) world" where
  "ex_store_world =
     \<lparr>slot = [Req 0 \<mapsto> 0], heap = [(Req 0, ex_store_session)], own = (\<lambda>c. Map.empty), ext = 0\<rparr>"

text \<open>Formatted options with \<open>autoCommit\<close> off, the prototype extended with them, and
  the state after the first access of request context 0.\<close>

definition ex_manual_formatted :: jsval where
  "ex_manual_formatted = JObj Plain
     [(Name ''autoCommit'', Data (JBool False)),
      (Name ''key'', Data (JStr ''koa:sess'')),
      (Name ''maxAge'', Data JUndefined),
      (Name ''overwrite'', Data (JBool True)),
      (Name ''httpOnly'', Data (JBool True)),
      (Name ''signed'', Data (JBool True)),
      (Name ''encode'', Data (fn util_encode)),
      (Name ''decode'', Data (fn util_decode)),
      (Name ''genid'', Data (fn uuid))]"

definition ex_manual_context :: jsval where
  "ex_manual_context = JObj Plain
     [(Name ''session'', Accessor (Some get_session) (Some set_session) True),
      (Name ''sessionOptions'', Accessor (Some get_sessionOptions) None False),
      (Sym CONTEXT_SESSION, Accessor (Some (get_CONTEXT_SESSION ex_manual_formatted)) None False)]"

definition ex_manual_world :: "(unit, nat) world" where
  "ex_manual_world =
     \<lparr>slot = [Req 0 \<mapsto> 0],
      heap = [(Req 0, \<lparr>cs_store = JUndefined, cs_opts = ex_manual_formatted, cs_rest = ()\<rparr>)],
      own = (\<lambda>c. Map.empty), ext = 0\<rparr>"

section \<open>Properties of the set-up\<close>

lemma map_of_upd: "map_of (upd key d ps) = (map_of ps)(key \<mapsto> d)"
  by (induction ps) auto

lemma get_prop_set_prop [simp]:
  "is_object w \<Longrightarrow> get_prop (set_prop w n v) m = (if m = n then v else get_prop w m)"
  by (cases w) (simp_all add: map_of_upd)

lemma is_object_set_prop [simp]: "is_object (set_prop w n v) = is_object w"
  by (cases w) simp_all

lemma is_object_default_true [simp]: "is_object (default_true n w) = is_object w"
  by (simp add: default_true_def)

lemma is_object_default_fn [simp]: "is_object (default_fn n f w) = is_object w"
  by (simp add: default_fn_def)

lemma get_prop_default_true:
  "is_object w \<Longrightarrow> get_prop (default_true n w) m =
     (if m = n \<and> eq_null (get_prop w n) then JBool True else get_prop w m)"
  by (simp add: default_true_def)

lemma get_prop_default_fn:
  "is_object w \<Longrightarrow> get_prop (default_fn n f w) m =
     (if m = n \<and> \<not> is_function (get_prop w n) then fn f else get_prop w m)"
  by (simp add: default_fn_def)

lemma get_prop_default_genid:
  "is_object w \<Longrightarrow> get_prop (default_genid w) m =
     (if m = ''genid'' \<and> \<not> truthy (get_prop w ''genid'')
      then (if truthy (get_prop w ''prefix'') then fn prefix_uuid else fn uuid)
      else get_prop w m)"
  by (simp add: default_genid_def)

lemma is_object_apply_defaults [simp]: "is_object (apply_defaults w) = is_object w"
  by (simp add: apply_defaults_def Let_def)

lemma get_prop_apply_defaults_key:
  "is_object w \<Longrightarrow> get_prop (apply_defaults w) ''key'' = js_or (get_prop w ''key'') (JStr ''koa:sess'')"
  by (simp add: apply_defaults_def Let_def get_prop_default_true get_prop_default_fn)

lemma get_prop_apply_defaults_overwrite:
  "is_object w \<Longrightarrow> get_prop (apply_defaults w) ''overwrite'' =
     (if eq_null (get_prop w ''overwrite'') then JBool True else get_prop w ''overwrite'')"
  by (simp add: apply_defaults_def Let_def get_prop_default_true get_prop_default_fn)

lemma get_prop_apply_defaults_httpOnly:
  "is_object w \<Longrightarrow> get_prop (apply_defaults w) ''httpOnly'' =
     (if eq_null (get_prop w ''httpOnly'') then JBool True else get_prop w ''httpOnly'')"
  by (simp add: apply_defaults_def Let_def get_prop_default_true get_prop_default_fn)

lemma get_prop_apply_defaults_signed:
  "is_object w \<Longrightarrow> get_prop (apply_defaults w) ''signed'' =
     (if eq_null (get_prop w ''signed'') then JBool True else get_prop w ''signed'')"
  by (simp add: apply_defaults_def Let_def get_prop_default_true get_prop_default_fn)

lemma get_prop_apply_defaults_autoCommit:
  "is_object w \<Longrightarrow> get_prop (apply_defaults w) ''autoCommit'' =
     (if eq_null (get_prop w ''autoCommit'') then JBool True else get_prop w ''autoCommit'')"
  by (simp add: apply_defaults_def Let_def get_prop_default_true get_prop_default_fn)

lemma get_prop_apply_defaults_flag:
  "is_object w \<Longrightarrow> n \<in> {''overwrite'', ''httpOnly'', ''signed'', ''autoCommit''} \<Longrightarrow>
   get_prop (apply_defaults w) n = (if eq_null (get_prop w n) then JBool True else get_prop w n)"
  using get_prop_apply_defaults_overwrite get_prop_apply_defaults_httpOnly
    get_prop_apply_defaults_signed get_prop_apply_defaults_autoCommit
  by blast

lemma formatOpts_Inr:
  "formatOpts opts0 = Inr r \<Longrightarrow>
   is_object (js_or opts0 (JObj Plain [])) \<and> r = default_genid (apply_defaults (js_or opts0 (JObj Plain [])))"
  by (auto simp add: formatOpts_def Let_def split: if_splits option.splits)

lemma get_prop_js_or_empty: "get_prop (js_or v (JObj Plain [])) n = get_prop v n"
  by (cases v) (simp_all add: js_or_def)

text \<open>
  C5. Whenever \<open>formatOpts\<close> returns, the options it returns carry the documented
  defaults: \<open>key\<close> is the caller's value when that is truthy and \<open>"koa:sess"\<close> when it is
  unset (or falsy), and each of \<open>overwrite\<close>, \<open>httpOnly\<close>, \<open>signed\<close> and \<open>autoCommit\<close> is
  \<open>true\<close> when the caller gave \<open>null\<close> or \<open>undefined\<close> and the caller's value, \<open>false\<close>
  included, otherwise.
\<close>

theorem formatOpts_defaults:
  assumes "formatOpts opts = Inr r"
  shows "get_prop r ''key'' =
           (if truthy (get_prop opts ''key'') then get_prop opts ''key'' else JStr ''koa:sess'') \<and>
         (\<forall>n \<in> {''overwrite'', ''httpOnly'', ''signed'', ''autoCommit''}.
           get_prop r n = (if eq_null (get_prop opts n) then JBool True else get_prop opts n))"
proof -
  let ?o = "js_or opts (JObj Plain [])"
  from formatOpts_Inr [OF assms] have ob: "is_object ?o"
    and r: "r = default_genid (apply_defaults ?o)" by simp_all
  have "get_prop r ''key'' = js_or (get_prop opts ''key'') (JStr ''koa:sess'')"
    using ob by (simp add: r get_prop_default_genid get_prop_apply_defaults_key get_prop_js_or_empty)
  then have key: "get_prop r ''key'' =
      (if truthy (get_prop opts ''key'') then get_prop opts ''key'' else JStr ''koa:sess'')"
    by (simp add: js_or_def)
  have flags: "get_prop r n = (if eq_null (get_prop opts n) then JBool True else get_prop opts n)"
    if n: "n \<in> {''overwrite'', ''httpOnly'', ''signed'', ''autoCommit''}" for n
  proof -
    from n have "n \<noteq> ''genid''" by auto
    then show ?thesis
      using ob get_prop_apply_defaults_flag [OF ob n]
      by (simp add: r get_prop_default_genid get_prop_js_or_empty)
  qed
  from key flags show ?thesis by blast
qed

lemma formatOpts_ex_opts: "formatOpts ex_opts = Inr ex_formatted"
  by (simp add: formatOpts_def js_or_def apply_defaults_def default_true_def default_fn_def
    check_store_def check_externalKey_def check_ContextStore_def default_genid_def
    ex_opts_def ex_formatted_def)

theorem formatOpts_defaults_witness:
  "formatOpts ex_opts = Inr ex_formatted \<and>
   get_prop ex_formatted ''key'' = JStr ''koa:sess'' \<and>
   get_prop ex_formatted ''signed'' = JBool False \<and>
   get_prop ex_formatted ''overwrite'' = JBool True \<and>
   get_prop ex_formatted ''httpOnly'' = JBool True \<and>
   get_prop ex_formatted ''autoCommit'' = JBool True"
  using formatOpts_ex_opts formatOpts_defaults [OF formatOpts_ex_opts]
  by (simp add: ex_opts_def)

lemma get_prop_apply_defaults_frame:
  assumes "is_object w" and "n \<noteq> ''key''" and "n \<noteq> ''maxAge''" and "n \<noteq> ''overwrite''"
    and "n \<noteq> ''httpOnly''" and "n \<noteq> ''signed''" and "n \<noteq> ''autoCommit''"
    and "n \<noteq> ''encode''" and "n \<noteq> ''decode''"
  shows "get_prop (apply_defaults w) n = get_prop w n"
  using assms
  by (simp add: apply_defaults_def Let_def get_prop_default_true get_prop_default_fn)

lemma get_prop_apply_defaults_store:
  "is_object w \<Longrightarrow> get_prop (apply_defaults w) ''store'' = get_prop w ''store''"
  by (rule get_prop_apply_defaults_frame) simp_all

lemma get_prop_apply_defaults_externalKey:
  "is_object w \<Longrightarrow> get_prop (apply_defaults w) ''externalKey'' = get_prop w ''externalKey''"
  by (rule get_prop_apply_defaults_frame) simp_all

lemma get_prop_apply_defaults_ContextStore:
  "is_object w \<Longrightarrow> get_prop (apply_defaults w) ''ContextStore'' = get_prop w ''ContextStore''"
  by (rule get_prop_apply_defaults_frame) simp_all

lemma get_prop_apply_defaults_genid:
  "is_object w \<Longrightarrow> get_prop (apply_defaults w) ''genid'' = get_prop w ''genid''"
  by (rule get_prop_apply_defaults_frame) simp_all

lemma get_prop_apply_defaults_prefix:
  "is_object w \<Longrightarrow> get_prop (apply_defaults w) ''prefix'' = get_prop w ''prefix''"
  by (rule get_prop_apply_defaults_frame) simp_all

lemma wrong_shape_is_object:
  "wrong_store opts \<or> wrong_externalKey opts \<or> wrong_ContextStore opts \<Longrightarrow> is_object opts"
  by (cases opts) (simp_all add: wrong_store_def wrong_externalKey_def wrong_ContextStore_def)

lemma is_object_js_or: "is_object v \<Longrightarrow> js_or v d = v"
  by (cases v) (simp_all add: js_or_def)

lemma check_store_wrong:
  "is_object w \<Longrightarrow> wrong_store w \<Longrightarrow> check_store (apply_defaults w) \<noteq> None"
  by (auto simp add: check_store_def wrong_store_def Let_def get_prop_apply_defaults_store)

lemma check_externalKey_wrong:
  "is_object w \<Longrightarrow> wrong_externalKey w \<Longrightarrow> check_externalKey (apply_defaults w) \<noteq> None"
  by (auto simp add: check_externalKey_def wrong_externalKey_def Let_def get_prop_apply_defaults_externalKey)

lemma check_ContextStore_wrong:
  "is_object w \<Longrightarrow> wrong_ContextStore w \<Longrightarrow> check_ContextStore (apply_defaults w) \<noteq> None"
  by (auto simp add: check_ContextStore_def wrong_ContextStore_def Let_def get_prop_apply_defaults_ContextStore)

lemma formatOpts_throws:
  assumes "wrong_store opts \<or> wrong_externalKey opts \<or> wrong_ContextStore opts"
  shows "\<exists>e. formatOpts opts = Inl e"
proof -
  have ob: "is_object opts" using assms by (rule wrong_shape_is_object)
  then have o: "js_or opts (JObj Plain []) = opts" by (rule is_object_js_or)
  from assms ob have "check_store (apply_defaults opts) \<noteq> None \<or>
      check_externalKey (apply_defaults opts) \<noteq> None \<or>
      check_ContextStore (apply_defaults opts) \<noteq> None"
    using check_store_wrong check_externalKey_wrong check_ContextStore_wrong by blast
  then show ?thesis
    using ob by (auto simp add: formatOpts_def o Let_def split: option.splits)
qed

lemma module_exports_no_swap:
  "\<not> has_use a \<Longrightarrow> module_exports a b =
     (if \<not> has_use b then Inl (TypeError ''app instance required: `session(opts, app)`'')
      else case formatOpts a of Inl e \<Rightarrow> Inl e
        | Inr opts \<Rightarrow> (case extendContext (get_prop b ''context'') opts of Inl e \<Rightarrow> Inl e
           | Inr context \<Rightarrow> Inr \<lparr>mw_opts = opts, mw_app = set_prop b ''context'' context\<rparr>))"
  by (auto simp add: module_exports_def has_use_def)

lemma module_exports_swap:
  "has_use a \<Longrightarrow> module_exports a b =
     (case formatOpts b of Inl e \<Rightarrow> Inl e
        | Inr opts \<Rightarrow> (case extendContext (get_prop a ''context'') opts of Inl e \<Rightarrow> Inl e
           | Inr context \<Rightarrow> Inr \<lparr>mw_opts = opts, mw_app = set_prop a ''context'' context\<rparr>))"
  by (auto simp add: module_exports_def has_use_def)

text \<open>
  C4. Set-up fails fast on a backend or resolver of the wrong shape: with a store
  that misses a function \<open>get\<close>, \<open>set\<close> or \<open>destroy\<close>, an external key that misses
  \<open>get\<close> or \<open>set\<close>, or a \<open>ContextStore\<close> that is not a class or whose prototype misses
  one of the three, \<open>formatOpts\<close> throws; and the module's export, called with such
  options and any second argument in either order, throws too, so no middleware
  is returned and no request is served.
\<close>

theorem setup_fails_fast:
  assumes "wrong_store opts \<or> wrong_externalKey opts \<or> wrong_ContextStore opts"
  shows "(\<exists>e. formatOpts opts = Inl e) \<and>
         (\<not> has_use opts \<longrightarrow>
            (\<forall>app. (\<exists>e. module_exports opts app = Inl e) \<and> (\<exists>e. module_exports app opts = Inl e)))"
proof -
  from formatOpts_throws [OF assms] obtain e where e: "formatOpts opts = Inl e" by blast
  have "(\<exists>e. module_exports opts app = Inl e) \<and> (\<exists>e. module_exports app opts = Inl e)"
    if n: "\<not> has_use opts" for app
  proof (cases "has_use app")
    case True
    then show ?thesis using n e by (simp add: module_exports_no_swap module_exports_swap)
  next
    case False
    then show ?thesis using n by (simp add: module_exports_no_swap)
  qed
  with e show ?thesis by blast
qed

text \<open>
  C9. The export takes its two arguments in either order: with an application (a
  value with a function \<open>use\<close>) and options without one, \<open>session(app, opts)\<close> and
  \<open>session(opts, app)\<close> give the same result; when neither argument has a function
  \<open>use\<close>, set-up throws the TypeError of line 32, before \<open>formatOpts\<close> and
  \<open>extendContext\<close> run.
\<close>

theorem module_exports_either_order:
  "(has_use app \<and> \<not> has_use opts \<longrightarrow> module_exports app opts = module_exports opts app) \<and>
   (\<not> has_use a \<and> \<not> has_use b \<longrightarrow>
      module_exports a b = Inl (TypeError ''app instance required: `session(opts, app)`''))"
  by (simp add: module_exports_no_swap module_exports_swap)

lemma formatOpts_genid_prefix:
  assumes "formatOpts opts = Inr r"
  shows "get_prop r ''genid'' =
           (if \<not> truthy (get_prop opts ''genid'')
            then (if truthy (get_prop opts ''prefix'') then fn prefix_uuid else fn uuid)
            else get_prop opts ''genid'')"
    and "get_prop r ''prefix'' = get_prop opts ''prefix''"
proof -
  let ?o = "js_or opts (JObj Plain [])"
  from formatOpts_Inr [OF assms] have ob: "is_object ?o"
    and r: "r = default_genid (apply_defaults ?o)" by simp_all
  show "get_prop r ''genid'' =
           (if \<not> truthy (get_prop opts ''genid'')
            then (if truthy (get_prop opts ''prefix'') then fn prefix_uuid else fn uuid)
            else get_prop opts ''genid'')"
    using ob
    by (simp add: r get_prop_default_genid get_prop_apply_defaults_genid
        get_prop_apply_defaults_prefix get_prop_js_or_empty)
  show "get_prop r ''prefix'' = get_prop opts ''prefix''"
    using ob
    by (simp add: r get_prop_default_genid get_prop_apply_defaults_prefix get_prop_js_or_empty)
qed

text \<open>
  C6. In the options that \<open>formatOpts\<close> returns, \<open>genid\<close> behaves as follows, \<open>u\<close> being
  what \<open>uuid()\<close> yields at the call. Without a caller's \<open>genid\<close> and without a prefix
  the identifier is \<open>u\<close>; without a caller's \<open>genid\<close> and with the string prefix \<open>p\<close> it
  is \<open>p\<close> followed by \<open>u\<close>; with a truthy prefix that is not a string it is what the
  template literal makes of the prefix, followed by \<open>u\<close>; a caller's \<open>genid\<close> is kept
  as it is, and the identifier is then what that function returns, whatever the
  prefix.
\<close>

theorem genid_default:
  assumes "formatOpts opts = Inr r"
  shows "(\<not> truthy (get_prop opts ''genid'') \<and> \<not> truthy (get_prop opts ''prefix'') \<longrightarrow>
            call_genid user to_str u r = Inr (JStr u)) \<and>
         (\<not> truthy (get_prop opts ''genid'') \<and> get_prop opts ''prefix'' = JStr p \<longrightarrow>
            call_genid user to_str u r = Inr (JStr (p @ u))) \<and>
         (\<not> truthy (get_prop opts ''genid'') \<and> truthy (get_prop opts ''prefix'') \<and>
          (\<forall>s. get_prop opts ''prefix'' \<noteq> JStr s) \<longrightarrow>
            call_genid user to_str u r =
              (case to_str (get_prop opts ''prefix'') of
                 Inl e \<Rightarrow> Inl e
               | Inr s \<Rightarrow> Inr (JStr (s @ u)))) \<and>
         (truthy (get_prop opts ''genid'') \<longrightarrow> get_prop r ''genid'' = get_prop opts ''genid'') \<and>
         (get_prop opts ''genid'' = fn (UserFn n) \<longrightarrow> call_genid user to_str u r = Inr (user n))"
proof -
  note g = formatOpts_genid_prefix [OF assms]
  have a: "call_genid user to_str u r = Inr (JStr u)"
    if "\<not> truthy (get_prop opts ''genid'')" "\<not> truthy (get_prop opts ''prefix'')"
    using that g by (simp add: call_genid_def fn_def)
  have b: "call_genid user to_str u r = Inr (JStr (p @ u))"
    if "\<not> truthy (get_prop opts ''genid'')" "get_prop opts ''prefix'' = JStr p"
    using that g by (cases "p = []") (simp_all add: call_genid_def fn_def template_def)
  have c: "call_genid user to_str u r =
      (case to_str (get_prop opts ''prefix'') of Inl e \<Rightarrow> Inl e | Inr s \<Rightarrow> Inr (JStr (s @ u)))"
    if "\<not> truthy (get_prop opts ''genid'')" "truthy (get_prop opts ''prefix'')"
      "\<forall>s. get_prop opts ''prefix'' \<noteq> JStr s"
    using that g by (cases "get_prop opts ''prefix''") (simp_all add: call_genid_def fn_def template_def)
  have d: "get_prop r ''genid'' = get_prop opts ''genid''" if "truthy (get_prop opts ''genid'')"
    using that g by simp
  have e: "call_genid user to_str u r = Inr (user n)" if "get_prop opts ''genid'' = fn (UserFn n)"
    using that g by (simp add: call_genid_def fn_def)
  from a b c d e show ?thesis by blast
qed

lemma define_accessor_has:
  "define_accessor key g s c v = Inr v' \<Longrightarrow> hasOwnProperty v' key \<and> is_object v'"
  by (cases v) (auto simp add: map_of_upd split: option.splits pdesc.splits bool.splits)

lemma define_accessor_keeps:
  "define_accessor key g s c v = Inr v' \<Longrightarrow> hasOwnProperty v key' \<Longrightarrow> hasOwnProperty v' key'"
  by (cases v) (auto simp add: map_of_upd split: option.splits pdesc.splits bool.splits)

lemma extendContext_has_slot:
  assumes "extendContext context opts = Inr context'"
  shows "hasOwnProperty context' (Sym CONTEXT_SESSION) \<and> is_object context'"
proof (cases "hasOwnProperty context (Sym CONTEXT_SESSION)")
  case True
  with assms have "context' = context" by (simp add: extendContext_def split: if_splits)
  with True show ?thesis by (cases "context") simp_all
next
  case False
  with assms show ?thesis
    by (auto simp add: extendContext_def split: if_splits sum.splits dest: define_accessor_has)
qed

lemma extendContext_again:
  "hasOwnProperty context (Sym CONTEXT_SESSION) \<Longrightarrow> extendContext context opts = Inr context"
  by (cases "context") (simp_all add: extendContext_def)

lemma upd_same: "map_of ps key = Some d \<Longrightarrow> upd key d ps = ps"
  by (induction ps) (auto split: if_splits)

lemma set_prop_same:
  "is_object w \<Longrightarrow> is_object v \<Longrightarrow> get_prop w n = v \<Longrightarrow> set_prop w n v = w"
  by (cases w) (auto simp add: upd_same split: option.splits pdesc.splits)

lemma has_use_is_object: "has_use v \<Longrightarrow> is_object v"
  by (cases v) (simp_all add: has_use_def)

lemma module_exports_Inr:
  assumes "module_exports a b = Inr i"
  obtains app opts cx where "has_use app" and "extendContext (get_prop app ''context'') opts = Inr cx"
    and "mw_app i = set_prop app ''context'' cx"
proof (cases "has_use a")
  case True
  with assms that [of a] show ?thesis
    by (auto simp add: module_exports_swap split: sum.splits)
next
  case False
  with assms that [of b] show ?thesis
    by (auto simp add: module_exports_no_swap split: sum.splits if_splits)
qed

text \<open>
  C10. Installing twice leaves the first installation's properties alone: on a
  context that already has the private slot \<open>CONTEXT_SESSION\<close>, \<open>extendContext\<close> returns
  the context as it is; so after one successful \<open>extendContext\<close> a second one, with
  any options, changes nothing, and a second call of the export on the same
  application returns that application unchanged.
\<close>

theorem extendContext_idempotent:
  "(hasOwnProperty context (Sym CONTEXT_SESSION) \<longrightarrow> extendContext context opts2 = Inr context) \<and>
   (extendContext context0 opts1 = Inr context1 \<longrightarrow> extendContext context1 opts2 = Inr context1) \<and>
   (module_exports a b = Inr i \<and> \<not> has_use opts2 \<and> formatOpts opts2 = Inr r2 \<longrightarrow>
      module_exports opts2 (mw_app i) = Inr \<lparr>mw_opts = r2, mw_app = mw_app i\<rparr>)"
proof (intro conjI impI)
  assume "hasOwnProperty context (Sym CONTEXT_SESSION)"
  then show "extendContext context opts2 = Inr context" by (rule extendContext_again)
next
  assume "extendContext context0 opts1 = Inr context1"
  then have "hasOwnProperty context1 (Sym CONTEXT_SESSION)" using extendContext_has_slot by blast
  then show "extendContext context1 opts2 = Inr context1" by (rule extendContext_again)
next
  assume h: "module_exports a b = Inr i \<and> \<not> has_use opts2 \<and> formatOpts opts2 = Inr r2"
  then obtain app opts cx where app: "has_use app"
    and ext: "extendContext (get_prop app ''context'') opts = Inr cx"
    and i: "mw_app i = set_prop app ''context'' cx"
    using module_exports_Inr by blast
  have ob: "is_object app" using app by (rule has_use_is_object)
  from ext have c: "hasOwnProperty cx (Sym CONTEXT_SESSION)" "is_object cx"
    using extendContext_has_slot by blast+
  have use: "has_use (mw_app i)" using app ob by (simp add: i has_use_def) (cases app, simp_all)
  have ctx: "get_prop (mw_app i) ''context'' = cx" using ob by (simp add: i)
  have same: "set_prop (mw_app i) ''context'' cx = mw_app i"
    using ob c(2) ctx by (intro set_prop_same) (simp_all add: i)
  show "module_exports opts2 (mw_app i) = Inr \<lparr>mw_opts = r2, mw_app = mw_app i\<rparr>"
    using h use by (simp add: module_exports_no_swap ctx extendContext_again [OF c(1)] same)
qed

section \<open>The set-up properties at the example inputs\<close>

lemmas formatOpts_eval = formatOpts_def js_or_def apply_defaults_def default_true_def default_fn_def
    check_store_def check_externalKey_def check_ContextStore_def default_genid_def

lemma formatOpts_ex_prefix_opts: "formatOpts ex_prefix_opts = Inr ex_prefix_formatted"
  by (simp add: formatOpts_eval ex_prefix_opts_def ex_prefix_formatted_def)

lemma formatOpts_ex_genid_opts: "formatOpts ex_genid_opts = Inr ex_genid_formatted"
  by (simp add: formatOpts_eval ex_genid_opts_def ex_genid_formatted_def fn_def)

lemma formatOpts_ex_bad_opts:
  "formatOpts ex_bad_opts = Inl (AssertionError ''store.set must be function'')"
  by (simp add: formatOpts_eval ex_bad_opts_def fn_def)

lemma wrong_store_ex_bad_opts: "wrong_store ex_bad_opts"
  by (simp add: wrong_store_def ex_bad_opts_def fn_def)

lemma has_use_ex_app: "has_use ex_app"
  by (simp add: has_use_def ex_app_def fn_def)

lemma has_use_ex_installed_app: "has_use ex_installed_app"
  by (simp add: has_use_def ex_installed_app_def fn_def)

lemma not_has_use_ex: "\<not> has_use ex_opts" "\<not> has_use ex_bad_opts" "\<not> has_use ex_prefix_opts"
  by (simp_all add: has_use_def ex_opts_def ex_bad_opts_def ex_prefix_opts_def)

lemma extendContext_ex: "extendContext (JObj Plain []) ex_formatted = Inr ex_context"
  by (simp add: extendContext_def ex_context_def)

lemma hasOwnProperty_ex_context: "hasOwnProperty ex_context (Sym CONTEXT_SESSION)"
  by (simp add: ex_context_def)

lemma module_exports_ex:
  "module_exports ex_opts ex_app = Inr \<lparr>mw_opts = ex_formatted, mw_app = ex_installed_app\<rparr>"
proof -
  have "get_prop ex_app ''context'' = JObj Plain []" by (simp add: ex_app_def)
  moreover have "set_prop ex_app ''context'' ex_context = ex_installed_app"
    by (simp add: ex_app_def ex_installed_app_def)
  ultimately show ?thesis
    using not_has_use_ex(1) has_use_ex_app
    by (simp add: module_exports_no_swap formatOpts_ex_opts extendContext_ex)
qed

theorem setup_fails_fast_witness:
  "wrong_store ex_bad_opts \<and> \<not> has_use ex_bad_opts \<and>
   formatOpts ex_bad_opts = Inl (AssertionError ''store.set must be function'') \<and>
   module_exports ex_bad_opts ex_app = Inl (AssertionError ''store.set must be function'') \<and>
   module_exports ex_app ex_bad_opts = Inl (AssertionError ''store.set must be function'')"
  using setup_fails_fast [of ex_bad_opts] wrong_store_ex_bad_opts not_has_use_ex(2) has_use_ex_app
  by (simp add: formatOpts_ex_bad_opts module_exports_no_swap module_exports_swap)

theorem module_exports_either_order_witness:
  "has_use ex_app \<and> \<not> has_use ex_opts \<and>
   module_exports ex_app ex_opts = module_exports ex_opts ex_app \<and>
   module_exports ex_opts ex_app = Inr \<lparr>mw_opts = ex_formatted, mw_app = ex_installed_app\<rparr> \<and>
   \<not> has_use JNull \<and>
   module_exports ex_opts JNull = Inl (TypeError ''app instance required: `session(opts, app)`'')"
  using module_exports_either_order [of ex_app ex_opts ex_opts JNull]
    has_use_ex_app not_has_use_ex(1) module_exports_ex
  by (simp add: has_use_def)

lemma formatOpts_ex_num_opts: "formatOpts ex_num_opts = Inr ex_num_formatted"
  by (simp add: formatOpts_eval ex_num_opts_def ex_num_formatted_def)

theorem genid_default_witness:
  "formatOpts ex_opts = Inr ex_formatted \<and>
   call_genid ex_user ex_to_str ''1b9d6bcd'' ex_formatted = Inr (JStr ''1b9d6bcd'') \<and>
   formatOpts ex_prefix_opts = Inr ex_prefix_formatted \<and>
   call_genid ex_user ex_to_str ''1b9d6bcd'' ex_prefix_formatted = Inr (JStr ''app:1b9d6bcd'') \<and>
   formatOpts ex_num_opts = Inr ex_num_formatted \<and>
   call_genid ex_user ex_to_str ''1b9d6bcd'' ex_num_formatted = Inr (JStr ''71b9d6bcd'') \<and>
   formatOpts ex_genid_opts = Inr ex_genid_formatted \<and>
   get_prop ex_genid_formatted ''genid'' = fn (UserFn 2) \<and>
   call_genid ex_user ex_to_str ''1b9d6bcd'' ex_genid_formatted = Inr (JStr ''custom-id'')"
  using genid_default [OF formatOpts_ex_opts, of ex_user ex_to_str "''1b9d6bcd''" "[]" 0]
    genid_default [OF formatOpts_ex_prefix_opts, of ex_user ex_to_str "''1b9d6bcd''" "''app:''" 0]
    genid_default [OF formatOpts_ex_num_opts, of ex_user ex_to_str "''1b9d6bcd''" "[]" 0]
    genid_default [OF formatOpts_ex_genid_opts, of ex_user ex_to_str "''1b9d6bcd''" "[]" 2]
    formatOpts_ex_opts formatOpts_ex_prefix_opts formatOpts_ex_num_opts formatOpts_ex_genid_opts
  by (simp add: ex_opts_def ex_prefix_opts_def ex_num_opts_def ex_genid_opts_def ex_user_def
      ex_to_str_def fn_def ex_genid_formatted_def)

theorem extendContext_idempotent_witness:
  "hasOwnProperty ex_context (Sym CONTEXT_SESSION) \<and>
   extendContext ex_context ex_prefix_opts = Inr ex_context \<and>
   extendContext (JObj Plain []) ex_formatted = Inr ex_context \<and>
   module_exports ex_opts ex_app = Inr \<lparr>mw_opts = ex_formatted, mw_app = ex_installed_app\<rparr> \<and>
   \<not> has_use ex_prefix_opts \<and> formatOpts ex_prefix_opts = Inr ex_prefix_formatted \<and>
   module_exports ex_prefix_opts ex_installed_app =
     Inr \<lparr>mw_opts = ex_prefix_formatted, mw_app = ex_installed_app\<rparr>"
  using extendContext_idempotent [of ex_context ex_prefix_opts "JObj Plain []" ex_formatted
      ex_context ex_opts ex_app "\<lparr>mw_opts = ex_formatted, mw_app = ex_installed_app\<rparr>"
      ex_prefix_formatted]
    hasOwnProperty_ex_context extendContext_ex module_exports_ex not_has_use_ex(3)
    formatOpts_ex_prefix_opts
  by simp

section \<open>Properties of the middleware\<close>

lemma session_load_cases:
  assumes "read_CONTEXT_SESSION L cx c w = Some (r, w1)" and "deref w1 r = Some sess"
  shows "session_load L cx c w =
     (if truthy (cs_store sess) then
        (case call_method (cs_initFromExternal L) r w1 of
           (Inl e, w2) \<Rightarrow> (Inl e, w2, [Load])
         | (Inr u, w2) \<Rightarrow> (Inr r, w2, [Load]))
      else (Inr r, w1, []))"
  using assms by (simp add: session_load_def)

lemma session_try_eq:
  "session_try L opts r next w2 =
     (if truthy (get_prop opts ''autoCommit'') then
        (case fst (call_method (cs_commit L) r (snd (next w2))) of
           Inl e \<Rightarrow> Some e | Inr u \<Rightarrow> fst (next w2),
         snd (call_method (cs_commit L) r (snd (next w2))), [Downstream, Commit])
      else (fst (next w2), snd (next w2), [Downstream]))"
  by (simp add: session_try_def split: prod.splits sum.splits)

text \<open>
  C1, as the code has it. With \<open>autoCommit\<close> on, once the load of line 40 has not
  thrown, the downstream chain runs and \<open>commit\<close> is called on the state the chain
  left, whether the chain returned or threw. When \<open>commit\<close> returns, the middleware
  ends as the chain did: it returns, or it throws the chain's error. When \<open>commit\<close>
  throws, the middleware throws the error of \<open>commit\<close>.
\<close>

theorem commit_after_downstream:
  assumes "truthy (get_prop opts ''autoCommit'')"
    and "session_load L cx c w = (Inr r, w2, t0)"
    and "next w2 = (outcome, w3)"
    and "call_method (cs_commit L) r w3 = (cres, w4)"
  shows "session L opts cx c next w =
           ((case cres of Inl e \<Rightarrow> Some e | Inr u \<Rightarrow> outcome), w4, t0 @ [Downstream, Commit])"
  using assms by (cases cres) (simp_all add: session_def session_try_eq)

text \<open>
  C7. With a truthy \<open>sess.store\<close> (external-store mode) the middleware first awaits
  \<open>initFromExternal\<close>; if that throws, nothing else is called; otherwise the
  downstream chain runs on the state the load left, and \<open>commit\<close>, when \<open>autoCommit\<close>
  is on, runs on the state the chain left. With a falsy \<open>sess.store\<close> (inline mode)
  there is no load: the chain runs on the state as it is after \<open>sess\<close> was read.
\<close>

theorem load_then_handlers_then_commit:
  assumes "read_CONTEXT_SESSION L cx c w = Some (r, w1)" and "deref w1 r = Some sess"
    and "call_method (cs_initFromExternal L) r w1 = (lres, wl)"
    and "session L opts cx c next w = (res, w', t)"
  shows "(truthy (cs_store sess) \<longrightarrow>
           (case lres of
              Inl e \<Rightarrow> res = Some e \<and> w' = wl \<and> t = [Load]
            | Inr u \<Rightarrow>
                t = Load # Downstream # (if truthy (get_prop opts ''autoCommit'') then [Commit] else []) \<and>
                w' = (if truthy (get_prop opts ''autoCommit'')
                      then snd (call_method (cs_commit L) r (snd (next wl)))
                      else snd (next wl)))) \<and>
         (\<not> truthy (cs_store sess) \<longrightarrow>
            t = Downstream # (if truthy (get_prop opts ''autoCommit'') then [Commit] else []) \<and>
            w' = (if truthy (get_prop opts ''autoCommit'')
                  then snd (call_method (cs_commit L) r (snd (next w1)))
                  else snd (next w1)))"
  using assms(3,4)
  by (auto simp add: session_def session_load_cases [OF assms(1,2)] session_try_eq split: sum.splits)

lemma read_CONTEXT_SESSION_lib [simp]:
  "read_CONTEXT_SESSION (L\<lparr>cs_commit := m\<rparr>) cx c w = read_CONTEXT_SESSION L cx c w"
  by (simp add: read_CONTEXT_SESSION_def run_get_CONTEXT_SESSION_def split: option.splits)

lemma session_load_lib [simp]:
  "session_load (L\<lparr>cs_commit := m\<rparr>) cx c w = session_load L cx c w"
  by (simp add: session_load_def split: option.splits prod.splits)

lemma ext_read_CONTEXT_SESSION:
  "read_CONTEXT_SESSION L cx c w = Some (r, w1) \<Longrightarrow> ext w1 = ext w"
  by (auto simp add: read_CONTEXT_SESSION_def run_get_CONTEXT_SESSION_def split: option.splits)

lemma ext_call_method:
  "\<forall>s x. snd (snd (m s x)) = x \<Longrightarrow> ext (snd (call_method m r w)) = ext w"
  by (auto simp add: call_method_def split: option.splits prod.splits) (metis snd_conv)

lemma ext_session_load:
  assumes "\<forall>s x. snd (snd (cs_initFromExternal L s x)) = x"
  shows "ext (fst (snd (session_load L cx c w))) = ext w"
proof (cases "read_CONTEXT_SESSION L cx c w")
  case None
  then show ?thesis by (simp add: session_load_def)
next
  case (Some p)
  obtain r w1 where p: "p = (r, w1)" by (cases p)
  have e: "ext w1 = ext w" using Some p ext_read_CONTEXT_SESSION by blast
  show ?thesis
  proof (cases "deref w1 r")
    case None
    then show ?thesis using Some p e by (simp add: session_load_def)
  next
    case (Some sess)
    have "ext (snd (call_method (cs_initFromExternal L) r w1)) = ext w1"
      using assms by (rule ext_call_method)
    then show ?thesis
      using \<open>read_CONTEXT_SESSION L cx c w = Some p\<close> p Some e
      by (auto simp add: session_load_def split: prod.splits sum.splits)
  qed
qed

text \<open>
  C2. With a falsy \<open>autoCommit\<close> the middleware never calls \<open>commit\<close>: no such call is
  among those it makes, and its result is the same whatever \<open>commit\<close> would do. So
  when neither the load nor the downstream chain changes the outward state (the
  backend and the cookies, in \<open>ext\<close>), the request leaves it as it was.
\<close>

theorem no_commit_without_autoCommit:
  assumes "\<not> truthy (get_prop opts ''autoCommit'')"
  shows "Commit \<notin> set (snd (snd (session L opts cx c next w))) \<and>
         session (L\<lparr>cs_commit := m\<rparr>) opts cx c next w = session L opts cx c next w \<and>
         ((\<forall>s x. snd (snd (cs_initFromExternal L s x)) = x) \<and> (\<forall>v. ext (snd (next v)) = ext v) \<longrightarrow>
            ext (fst (snd (session L opts cx c next w))) = ext w)"
proof (intro conjI impI)
  show "Commit \<notin> set (snd (snd (session L opts cx c next w)))"
    using assms
    by (auto simp add: session_def session_try_eq session_load_def
        split: prod.splits sum.splits option.splits)
  show "session (L\<lparr>cs_commit := m\<rparr>) opts cx c next w = session L opts cx c next w"
    using assms by (simp add: session_def session_try_eq split: prod.splits sum.splits)
  assume h: "(\<forall>s x. snd (snd (cs_initFromExternal L s x)) = x) \<and> (\<forall>v. ext (snd (next v)) = ext v)"
  then have "ext (fst (snd (session_load L cx c w))) = ext w" using ext_session_load by blast
  then show "ext (fst (snd (session L opts cx c next w))) = ext w"
    using assms h by (auto simp add: session_def session_try_eq split: prod.splits sum.splits)
qed

section \<open>Properties of the private slot\<close>

lemma wf_world_init: "wf_world (init_world x)"
  by (simp add: wf_world_def init_world_def)

lemma private_slot_None: "private_slot w c = None \<Longrightarrow> slot w c = None"
  by (simp add: private_slot_def split: option.splits)

lemma private_slot_own: "slot w c = Some r \<Longrightarrow> private_slot w c = Some r"
  by (simp add: private_slot_def)

lemma wf_world_getter:
  assumes "wf_world w"
  shows "wf_world (snd (run_get_CONTEXT_SESSION L opts c w))"
proof (cases "private_slot w c")
  case (Some r)
  then show ?thesis using assms by (simp add: run_get_CONTEXT_SESSION_def)
next
  case p: None
  then have None: "slot w c = None" by (rule private_slot_None)
  let ?h = "heap w @ [(c, new_ContextSession L c opts)]"
  have a: "r < length ?h \<and> fst (?h ! r) = c'"
    if "((slot w)(c \<mapsto> length (heap w))) c' = Some r" for c' r
    using that assms by (auto simp add: wf_world_def nth_append split: if_splits)
  have b: "((slot w)(c \<mapsto> length (heap w))) (fst (?h ! i)) = Some i" if "i < length ?h" for i
  proof (cases "i < length (heap w)")
    case True
    then have "slot w (fst (heap w ! i)) = Some i" using assms by (simp add: wf_world_def)
    with None True show ?thesis by (auto simp add: nth_append)
  next
    case False
    with that have "i = length (heap w)" by simp
    then show ?thesis by simp
  qed
  from a b show ?thesis using p
    by (simp add: run_get_CONTEXT_SESSION_def wf_world_def)
qed

lemma wf_world_getter_result:
  "wf_world w \<Longrightarrow> run_get_CONTEXT_SESSION L opts c w = (r, w') \<Longrightarrow> wf_world w'"
  using wf_world_getter [of w L opts c] by simp

lemma read_CONTEXT_SESSION_Some:
  assumes "read_CONTEXT_SESSION L cx c w = Some (r, w')"
  obtains opts where "run_get_CONTEXT_SESSION L opts c w = (r, w')"
  using assms
  by (auto simp add: read_CONTEXT_SESSION_def split: option.splits)

lemma wf_world_read_CONTEXT_SESSION:
  "wf_world w \<Longrightarrow> read_CONTEXT_SESSION L cx c w = Some (r, w') \<Longrightarrow> wf_world w'"
  using wf_world_getter_result by (blast elim: read_CONTEXT_SESSION_Some)

lemma fst_nth_update: "fst (h[r := (fst (h ! r), s)] ! i) = fst (h ! i)"
  by (cases "i = r"; cases "r < length h") (simp_all add: list_update_beyond)

lemma wf_world_call_method: "wf_world w \<Longrightarrow> wf_world (snd (call_method m r w))"
  by (auto simp add: call_method_def wf_world_def fst_nth_update split: option.splits prod.splits)

lemma wf_world_own: "wf_world (w\<lparr>own := f\<rparr>) = wf_world w"
  by (simp add: wf_world_def)


lemma wf_world_run_getter: "wf_world w \<Longrightarrow> wf_world (snd (run_getter L cx g c w))"
  by (cases g)
    (auto simp add: wf_world_call_method split: option.splits dest: wf_world_read_CONTEXT_SESSION)

lemma wf_world_run_setter: "wf_world w \<Longrightarrow> wf_world (snd (run_setter L cx f c v w))"
proof (cases "f = set_session")
  case False
  then show "wf_world w \<Longrightarrow> ?thesis" by (cases f) simp_all
next
  case True
  assume w: "wf_world w"
  show ?thesis
  proof (cases "read_CONTEXT_SESSION L cx c w")
    case None
    then show ?thesis using w True by simp
  next
    case (Some p)
    obtain r w' where p: "p = (r, w')" by (cases p)
    then have "wf_world w'" using w Some wf_world_read_CONTEXT_SESSION by blast
    then have "wf_world (snd (call_method (cs_set L v) r w'))" by (rule wf_world_call_method)
    then show ?thesis using Some p True by (auto split: prod.splits sum.splits)
  qed
qed

lemma wf_world_read_property: "wf_world w \<Longrightarrow> wf_world (snd (read_property L cx c n w))"
  by (auto simp add: read_property_def wf_world_run_getter split: option.splits pdesc.splits)

lemma wf_world_write_property:
  "wf_world w \<Longrightarrow> wf_world (snd (write_property L cx strict c n v w))"
  by (auto simp add: write_property_def wf_world_own wf_world_run_setter Let_def
      split: option.splits pdesc.splits)

lemma wf_world_step: "wf_world w \<Longrightarrow> wf_world (step L cx a w)"
  by (cases a)
    (auto simp add: wf_world_read_property wf_world_write_property
      split: option.splits dest: wf_world_read_CONTEXT_SESSION)

lemma wf_world_run: "wf_world w \<Longrightarrow> wf_world (run L cx as w)"
  by (induction as arbitrary: w) (simp_all add: wf_world_step)





lemma private_slot_own_update [simp]: "private_slot (w\<lparr>own := f\<rparr>) = private_slot w"
  by (rule ext) (simp add: private_slot_def split: option.splits receiver.splits)

















lemma wf_world_slot:
  "wf_world w \<Longrightarrow> slot w c = Some r \<Longrightarrow> r < length (heap w) \<and> fst (heap w ! r) = c"
  unfolding wf_world_def by blast





lemma hasOwnProperty_proto_desc: "hasOwnProperty v key = (proto_desc v key \<noteq> None)"
  by (cases v) simp_all

lemma define_accessor_other:
  "define_accessor key g s c v = Inr v' \<Longrightarrow> key' \<noteq> key \<Longrightarrow> proto_desc v' key' = proto_desc v key'"
  by (cases v) (auto simp add: map_of_upd split: option.splits pdesc.splits bool.splits)

lemma define_accessor_new:
  "define_accessor key g s c v = Inr v' \<Longrightarrow> proto_desc v key = None \<Longrightarrow>
   proto_desc v' key = Some (Accessor (Some g) s (case c of None \<Rightarrow> False | Some b \<Rightarrow> b))"
  by (cases v) (auto simp add: map_of_upd)

lemma extendContext_fresh:
  assumes "extendContext cx0 opts = Inr cx"
    and "\<not> hasOwnProperty cx0 (Sym CONTEXT_SESSION)"
  shows "proto_desc cx (Sym CONTEXT_SESSION) = Some (Accessor (Some (get_CONTEXT_SESSION opts)) None False)"
    and "\<not> hasOwnProperty cx0 (Name ''sessionOptions'') \<Longrightarrow>
         proto_desc cx (Name ''sessionOptions'') = Some (Accessor (Some get_sessionOptions) None False)"
proof -
  from assms obtain c1 c2 where
    d1: "define_accessor (Name ''session'') get_session (Some set_session) (Some True) cx0 = Inr c1"
    and d2: "define_accessor (Name ''sessionOptions'') get_sessionOptions None None c1 = Inr c2"
    and d3: "define_accessor (Sym CONTEXT_SESSION) (get_CONTEXT_SESSION opts) None None c2 = Inr cx"
    by (auto simp add: extendContext_def split: if_splits sum.splits)
  have "proto_desc c2 (Sym CONTEXT_SESSION) = None"
    using assms(2) define_accessor_other [OF d1, of "Sym CONTEXT_SESSION"]
      define_accessor_other [OF d2, of "Sym CONTEXT_SESSION"]
    by (simp add: hasOwnProperty_proto_desc)
  from define_accessor_new [OF d3 this]
  show "proto_desc cx (Sym CONTEXT_SESSION) = Some (Accessor (Some (get_CONTEXT_SESSION opts)) None False)"
    by simp
  assume "\<not> hasOwnProperty cx0 (Name ''sessionOptions'')"
  then have "proto_desc c1 (Name ''sessionOptions'') = None"
    using define_accessor_other [OF d1, of "Name ''sessionOptions''"]
    by (simp add: hasOwnProperty_proto_desc)
  from define_accessor_new [OF d2 this]
  have "proto_desc c2 (Name ''sessionOptions'') = Some (Accessor (Some get_sessionOptions) None False)"
    by simp
  then show "proto_desc cx (Name ''sessionOptions'') = Some (Accessor (Some get_sessionOptions) None False)"
    using define_accessor_other [OF d3, of "Name ''sessionOptions''"] by simp
qed

section \<open>The property \<open>sessionOptions\<close>\<close>

lemma own_getter: "own (snd (run_get_CONTEXT_SESSION L opts c w)) = own w"
  by (simp add: run_get_CONTEXT_SESSION_def split: option.splits)

lemma own_read_CONTEXT_SESSION:
  assumes "read_CONTEXT_SESSION L cx c w = Some (r, w')"
  shows "own w' = own w"
proof -
  from assms obtain opts where "run_get_CONTEXT_SESSION L opts c w = (r, w')"
    by (blast elim: read_CONTEXT_SESSION_Some)
  then have "w' = snd (run_get_CONTEXT_SESSION L opts c w)" by simp
  then show ?thesis by (simp add: own_getter)
qed

lemma own_call_method: "own (snd (call_method m r w)) = own w"
  by (auto simp add: call_method_def split: option.splits prod.splits)

lemma own_run_getter: "own (snd (run_getter L cx g c w)) = own w"
  by (cases g)
    (auto simp add: own_call_method split: option.splits dest: own_read_CONTEXT_SESSION)

lemma own_run_setter: "own (snd (run_setter L cx f c v w)) = own w"
proof (cases "f = set_session")
  case False
  then show ?thesis by (cases f) simp_all
next
  case True
  show ?thesis
  proof (cases "read_CONTEXT_SESSION L cx c w")
    case None
    then show ?thesis using True by simp
  next
    case (Some p)
    obtain r w' where p: "p = (r, w')" by (cases p)
    then have "own w' = own w" using Some own_read_CONTEXT_SESSION by blast
    then have "own (snd (call_method (cs_set L v) r w')) = own w" by (simp add: own_call_method)
    then show ?thesis using Some p True by (auto split: prod.splits sum.splits)
  qed
qed

lemma own_read_property: "own (snd (read_property L cx c n w)) = own w"
  by (simp add: read_property_def own_run_getter split: option.splits pdesc.splits)

lemma inherited_no_own:
  "own w Proto n = None \<Longrightarrow> inherited w cx c n = proto_desc cx (Name n)"
  by (simp add: inherited_def split: receiver.splits)

lemma wf_world_private_slot:
  "wf_world w \<Longrightarrow> private_slot w c = Some r \<Longrightarrow> r < length (heap w)"
  by (auto simp add: private_slot_def split: option.splits receiver.splits dest: wf_world_slot)

lemma own_write_property:
  assumes "proto_desc cx (Name k) = Some (Accessor g None b)" and "\<forall>c. own w c k = None"
  shows "\<forall>c. own (snd (write_property L cx strict c0 n v w)) c k = None"
proof (cases "n = k")
  case True
  then show ?thesis using assms by (simp add: write_property_def inherited_no_own)
next
  case False
  then show ?thesis using assms(2)
    by (simp add: write_property_def Let_def own_run_setter split: option.splits pdesc.splits)
qed

lemma own_step:
  assumes "proto_desc cx (Name k) = Some (Accessor g None b)" and "\<forall>c. own w c k = None"
  shows "\<forall>c. own (step L cx a w) c k = None"
proof (cases a)
  case (Read c0 n)
  then show ?thesis using assms(2) by (simp add: own_read_property)
next
  case (Write c0 strict n v)
  then show ?thesis using own_write_property [OF assms] by simp
next
  case (Touch c0)
  then show ?thesis using assms(2)
    by (auto split: option.splits dest: own_read_CONTEXT_SESSION)
qed

lemma own_run:
  "proto_desc cx (Name k) = Some (Accessor g None b) \<Longrightarrow> \<forall>c. own w c k = None \<Longrightarrow>
   \<forall>c. own (run L cx as w) c k = None"
  by (induction as arbitrary: w) (simp_all add: own_step)

text \<open>
  C8. On a context prototype that had neither the private slot nor a property
  \<open>sessionOptions\<close>, \<open>extendContext\<close> defines \<open>sessionOptions\<close> with the getter of line
  151, no setter, and not configurable. In any state reached by property accesses,
  an assignment to \<open>ctx.sessionOptions\<close> changes nothing (it throws a TypeError in
  strict code and is ignored otherwise), and a read returns the \<open>opts\<close> field of the
  context's \<open>ContextSession\<close>: of the instance its private slot reads, or of the one
  constructed with the configured options.
\<close>

theorem sessionOptions_read_only:
  assumes "extendContext cx0 opts = Inr cx"
    and "\<not> hasOwnProperty cx0 (Sym CONTEXT_SESSION)"
    and "\<not> hasOwnProperty cx0 (Name ''sessionOptions'')"
    and "w = run L cx as (init_world x)"
  shows "proto_desc cx (Name ''sessionOptions'') = Some (Accessor (Some get_sessionOptions) None False) \<and>
         write_property L cx strict c ''sessionOptions'' v w =
           (if strict then Some (TypeError ''Cannot set property which has only a getter'') else None, w) \<and>
         (\<forall>r. private_slot w c = Some r \<longrightarrow>
            read_property L cx c ''sessionOptions'' w = (Inr (cs_opts (snd (heap w ! r))), w)) \<and>
         (private_slot w c = None \<longrightarrow>
            fst (read_property L cx c ''sessionOptions'' w) = Inr (cs_opts (new_ContextSession L c opts)))"
proof -
  have d: "proto_desc cx (Name ''sessionOptions'') = Some (Accessor (Some get_sessionOptions) None False)"
    using extendContext_fresh(2) [OF assms(1,2,3)] .
  have g: "proto_desc cx (Sym CONTEXT_SESSION) = Some (Accessor (Some (get_CONTEXT_SESSION opts)) None False)"
    using extendContext_fresh(1) [OF assms(1,2)] .
  have "\<forall>c. own (init_world x :: ('a, 'b) world) c ''sessionOptions'' = None"
    by (simp add: init_world_def)
  then have oa: "\<forall>c. own w c ''sessionOptions'' = None" unfolding assms(4) by (rule own_run [OF d])
  then have o: "own w c ''sessionOptions'' = None" by simp
  have i: "inherited w cx c ''sessionOptions'' = Some (Accessor (Some get_sessionOptions) None False)"
    using oa d by (simp add: inherited_no_own)
  have wf: "wf_world w" unfolding assms(4) by (rule wf_world_run) (rule wf_world_init)
  have wr: "write_property L cx strict c ''sessionOptions'' v w =
      (if strict then Some (TypeError ''Cannot set property which has only a getter'') else None, w)"
    using i o by (simp add: write_property_def)
  have rd: "read_CONTEXT_SESSION L cx c w = Some (run_get_CONTEXT_SESSION L opts c w)"
    using g by (simp add: read_CONTEXT_SESSION_def)
  have r1: "read_property L cx c ''sessionOptions'' w = (Inr (cs_opts (snd (heap w ! r))), w)"
    if "private_slot w c = Some r" for r
    using that i o rd wf_world_private_slot [OF wf that]
    by (simp add: read_property_def run_get_CONTEXT_SESSION_def deref_def)
  have r2: "fst (read_property L cx c ''sessionOptions'' w) = Inr (cs_opts (new_ContextSession L c opts))"
    if "private_slot w c = None"
    using that i o rd
    by (simp add: read_property_def run_get_CONTEXT_SESSION_def deref_def)
  from d wr r1 r2 show ?thesis by blast
qed

section \<open>The request properties at the example inputs\<close>

lemma read_ex_context:
  "read_CONTEXT_SESSION L ex_context c w = Some (run_get_CONTEXT_SESSION L ex_formatted c w)"
  by (simp add: read_CONTEXT_SESSION_def ex_context_def)

lemma getter_ex_init:
  "run_get_CONTEXT_SESSION ex_lib ex_formatted (Req 0) (init_world 0) = (0, ex_world)"
  "run_get_CONTEXT_SESSION ex_failing_lib ex_formatted (Req 0) (init_world 0) = (0, ex_world)"
  by (simp_all add: run_get_CONTEXT_SESSION_def private_slot_def init_world_def ex_world_def ex_lib_def
      ex_failing_lib_def ex_session_def ex_formatted_def)

lemma deref_ex_world: "deref ex_world 0 = Some ex_session"
  by (simp add: deref_def ex_world_def)

lemma session_load_ex:
  "session_load ex_lib ex_context (Req 0) (init_world 0) = (Inr 0, ex_world, [])"
  "session_load ex_failing_lib ex_context (Req 0) (init_world 0) = (Inr 0, ex_world, [])"
  by (simp_all add: session_load_def read_ex_context getter_ex_init deref_ex_world ex_session_def)

lemma commit_ex_world:
  "call_method (cs_commit ex_lib) 0 ex_world = (Inr JUndefined, ex_world\<lparr>ext := 1\<rparr>)"
  "call_method (cs_commit ex_failing_lib) 0 ex_world = (Inl (Thrown (JStr ''commit failed'')), ex_world)"
  by (simp_all add: call_method_def deref_ex_world ex_lib_def ex_failing_lib_def)
    (simp_all add: ex_world_def)

lemma autoCommit_ex_formatted: "truthy (get_prop ex_formatted ''autoCommit'')"
  by (simp add: ex_formatted_def)

theorem commit_after_downstream_witness:
  "session ex_lib ex_formatted ex_context (Req 0) ex_next_throws (init_world 0) =
     (Some (Thrown (JStr ''handler failed'')), ex_world\<lparr>ext := 1\<rparr>, [Downstream, Commit]) \<and>
   session ex_lib ex_formatted ex_context (Req 0) ex_next_returns (init_world 0) =
     (None, ex_world\<lparr>ext := 1\<rparr>, [Downstream, Commit])"
  using commit_after_downstream [OF autoCommit_ex_formatted session_load_ex(1) _ commit_ex_world(1),
      of ex_next_throws "Some (Thrown (JStr ''handler failed''))"]
    commit_after_downstream [OF autoCommit_ex_formatted session_load_ex(1) _ commit_ex_world(1),
      of ex_next_returns None]
  by (simp add: ex_next_throws_def ex_next_returns_def)

text \<open>
  C1, as the claim has it, fails when \<open>commit\<close> throws: here the downstream chain
  throws \<open>handler failed\<close>, \<open>commit\<close> runs and throws \<open>commit failed\<close>, and the
  middleware throws the error of \<open>commit\<close>, not the chain's.
\<close>

theorem commit_error_replaces_handler_error:
  "fst (ex_next_throws ex_world) = Some (Thrown (JStr ''handler failed'')) \<and>
   session ex_failing_lib ex_formatted ex_context (Req 0) ex_next_throws (init_world 0) =
     (Some (Thrown (JStr ''commit failed'')), ex_world, [Downstream, Commit])"
  by (simp add: session_def session_load_ex session_try_def autoCommit_ex_formatted
      ex_next_throws_def commit_ex_world)

lemma read_ex_store_context:
  "read_CONTEXT_SESSION ex_lib ex_store_context (Req 0) (init_world 0) = Some (0, ex_store_world)"
  by (simp add: read_CONTEXT_SESSION_def ex_store_context_def run_get_CONTEXT_SESSION_def private_slot_def
      init_world_def ex_store_world_def ex_lib_def ex_store_session_def ex_store_formatted_def)

lemma deref_ex_store_world: "deref ex_store_world 0 = Some ex_store_session"
  by (simp add: deref_def ex_store_world_def)

lemma load_ex_store_world:
  "call_method (cs_initFromExternal ex_lib) 0 ex_store_world = (Inr JUndefined, ex_store_world)"
  by (simp add: call_method_def deref_ex_store_world ex_lib_def) (simp add: ex_store_world_def)

lemma commit_ex_store_world:
  "call_method (cs_commit ex_lib) 0 ex_store_world = (Inr JUndefined, ex_store_world\<lparr>ext := 1\<rparr>)"
  by (simp add: call_method_def deref_ex_store_world ex_lib_def) (simp add: ex_store_world_def)

lemma session_ex_store:
  "session ex_lib ex_store_formatted ex_store_context (Req 0) ex_next_returns (init_world 0) =
     (None, ex_store_world\<lparr>ext := 1\<rparr>, [Load, Downstream, Commit])"
  by (simp add: session_def session_load_def session_try_def read_ex_store_context
      deref_ex_store_world load_ex_store_world commit_ex_store_world ex_next_returns_def)
    (simp add: ex_store_session_def ex_store_def ex_store_formatted_def)

theorem load_then_handlers_then_commit_witness:
  "truthy (cs_store ex_store_session) \<and>
   truthy (get_prop ex_store_formatted ''autoCommit'') \<and>
   session ex_lib ex_store_formatted ex_store_context (Req 0) ex_next_returns (init_world 0) =
     (None, ex_store_world\<lparr>ext := 1\<rparr>, [Load, Downstream, Commit]) \<and>
   \<not> truthy (cs_store ex_session) \<and>
   session ex_lib ex_formatted ex_context (Req 0) ex_next_returns (init_world 0) =
     (None, ex_world\<lparr>ext := 1\<rparr>, [Downstream, Commit])"
proof -
  have inline: "session ex_lib ex_formatted ex_context (Req 0) ex_next_returns (init_world 0) =
     (None, ex_world\<lparr>ext := 1\<rparr>, [Downstream, Commit])"
    by (simp add: session_def session_load_ex session_try_def autoCommit_ex_formatted
        ex_next_returns_def commit_ex_world)
  have rd: "read_CONTEXT_SESSION ex_lib ex_context (Req 0) (init_world 0) = Some (0, ex_world)"
    by (simp add: read_ex_context getter_ex_init)
  have ld: "call_method (cs_initFromExternal ex_lib) 0 ex_world = (Inr JUndefined, ex_world)"
    by (simp add: call_method_def deref_ex_world ex_lib_def) (simp add: ex_world_def)
  show ?thesis
    using load_then_handlers_then_commit
      [OF read_ex_store_context deref_ex_store_world load_ex_store_world session_ex_store]
      load_then_handlers_then_commit [OF rd deref_ex_world ld inline]
      session_ex_store inline
    by (simp add: ex_store_session_def ex_store_def ex_store_formatted_def ex_session_def)
qed

lemma read_ex_manual_context:
  "read_CONTEXT_SESSION ex_lib ex_manual_context (Req 0) (init_world 0) = Some (0, ex_manual_world)"
  by (simp add: read_CONTEXT_SESSION_def ex_manual_context_def run_get_CONTEXT_SESSION_def private_slot_def
      init_world_def ex_manual_world_def ex_lib_def ex_manual_formatted_def)

lemma session_ex_manual:
  "session ex_lib ex_manual_formatted ex_manual_context (Req 0) ex_next_returns (init_world 0) =
     (None, ex_manual_world, [Downstream])"
  by (simp add: session_def session_load_def session_try_def read_ex_manual_context
      deref_def ex_next_returns_def)
    (simp add: ex_manual_world_def ex_manual_formatted_def)

theorem no_commit_without_autoCommit_witness:
  "\<not> truthy (get_prop ex_manual_formatted ''autoCommit'') \<and>
   session ex_lib ex_manual_formatted ex_manual_context (Req 0) ex_next_returns (init_world 0) =
     (None, ex_manual_world, [Downstream]) \<and>
   session ex_failing_lib ex_manual_formatted ex_manual_context (Req 0) ex_next_returns (init_world 0) =
     (None, ex_manual_world, [Downstream]) \<and>
   ext ex_manual_world = ext (init_world 0 :: (unit, nat) world)"
proof -
  have off: "\<not> truthy (get_prop ex_manual_formatted ''autoCommit'')"
    by (simp add: ex_manual_formatted_def)
  have frame: "(\<forall>s x. snd (snd (cs_initFromExternal ex_lib s x)) = x) \<and>
      (\<forall>v. ext (snd (ex_next_returns v)) = ext v)"
    by (simp add: ex_lib_def ex_next_returns_def)
  show ?thesis
    using no_commit_without_autoCommit [OF off, of ex_lib ex_manual_context "Req 0" ex_next_returns
        "init_world 0" "\<lambda>s x. (Inl (Thrown (JStr ''commit failed'')), s, x)"]
      off frame session_ex_manual
    by (simp add: ex_failing_lib_def)
qed

lemma proto_desc_ex_context:
  "proto_desc ex_context (Name ''session'') = Some (Accessor (Some get_session) (Some set_session) True)"
  "proto_desc ex_context (Name ''sessionOptions'') = Some (Accessor (Some get_sessionOptions) None False)"
  by (simp_all add: ex_context_def)

lemma new_ex_session: "new_ContextSession ex_lib c ex_formatted = ex_session"
  by (simp add: ex_lib_def ex_session_def ex_formatted_def)

lemma own_ex:
  "own (init_world x) c n = None" "own ex_world c n = None" "own ex_world2 c n = None"
  "own ex_proto_world c n = None"
  by (simp_all add: init_world_def ex_world_def ex_world2_def ex_proto_world_def)

lemma inherited_ex:
  "inherited (init_world x) ex_context c n = proto_desc ex_context (Name n)"
  "inherited ex_world ex_context c n = proto_desc ex_context (Name n)"
  "inherited ex_world2 ex_context c n = proto_desc ex_context (Name n)"
  "inherited ex_proto_world ex_context c n = proto_desc ex_context (Name n)"
  by (simp_all add: inherited_no_own own_ex)

lemma step1_ex: "step ex_lib ex_context (Read (Req 0) ''session'') (init_world 0) = ex_world"
proof -
  have "call_method (cs_get ex_lib) 0 ex_world = (Inr (JObj Plain []), ex_world)"
    by (simp add: call_method_def deref_ex_world ex_lib_def) (simp add: ex_world_def)
  then show ?thesis
    by (simp add: read_property_def own_ex inherited_ex proto_desc_ex_context read_ex_context
        getter_ex_init)
qed

lemma getter_ex_world:
  "run_get_CONTEXT_SESSION ex_lib ex_formatted (Req 5) ex_world = (Suc 0, ex_world2)"
proof -
  have "private_slot ex_world (Req 5) = None" "length (heap ex_world) = Suc 0"
    by (simp_all add: private_slot_def ex_world_def)
  then show ?thesis
    by (simp add: run_get_CONTEXT_SESSION_def new_ex_session) (simp add: ex_world_def ex_world2_def)
qed

lemma step2_ex: "step ex_lib ex_context (Write (Req 5) True ''session'' JNull) ex_world = ex_world2"
proof -
  have "call_method (cs_set ex_lib JNull) (Suc 0) ex_world2 = (Inr JUndefined, ex_world2)"
    by (simp add: call_method_def deref_def ex_lib_def ex_world2_def)
  then show ?thesis
    by (simp add: write_property_def own_ex inherited_ex proto_desc_ex_context read_ex_context
        getter_ex_world)
qed

lemma private_slot_ex_world2:
  "private_slot ex_world2 (Req 0) = Some 0" "private_slot ex_world2 (Req 5) = Some (Suc 0)"
  "private_slot ex_world2 (Req 2) = None"
  by (simp_all add: private_slot_def ex_world2_def)

lemma getter_ex_world2:
  "run_get_CONTEXT_SESSION ex_lib ex_formatted (Req 0) ex_world2 = (0, ex_world2)"
  "run_get_CONTEXT_SESSION ex_lib ex_formatted (Req 5) ex_world2 = (Suc 0, ex_world2)"
  by (simp_all add: run_get_CONTEXT_SESSION_def private_slot_ex_world2)

lemma deref_ex_world2: "deref ex_world2 0 = Some ex_session"
  by (simp add: deref_def ex_world2_def)

lemma step3_ex: "step ex_lib ex_context (Read (Req 0) ''sessionOptions'') ex_world2 = ex_world2"
  by (simp add: read_property_def own_ex inherited_ex proto_desc_ex_context read_ex_context
      getter_ex_world2 deref_ex_world2)

lemma run_ex_accesses: "run ex_lib ex_context ex_accesses (init_world 0) = ex_world2"
  by (simp add: ex_accesses_def step1_ex step2_ex step3_ex del: step.simps)







lemma extendContext_ex_fresh:
  "\<not> hasOwnProperty (JObj Plain []) (Sym CONTEXT_SESSION)"
  "\<not> hasOwnProperty (JObj Plain []) (Name ''sessionOptions'')"
  by simp_all

theorem sessionOptions_read_only_witness:
  "extendContext (JObj Plain []) ex_formatted = Inr ex_context \<and>
   run ex_lib ex_context ex_accesses (init_world 0) = ex_world2 \<and>
   write_property ex_lib ex_context True (Req 0) ''sessionOptions'' JNull ex_world2 =
     (Some (TypeError ''Cannot set property which has only a getter''), ex_world2) \<and>
   write_property ex_lib ex_context False (Req 0) ''sessionOptions'' JNull ex_world2 =
     (None, ex_world2) \<and>
   read_property ex_lib ex_context (Req 0) ''sessionOptions'' ex_world2 =
     (Inr ex_formatted, ex_world2) \<and>
   fst (read_property ex_lib ex_context (Req 2) ''sessionOptions'' ex_world2) = Inr ex_formatted"
  using sessionOptions_read_only [OF extendContext_ex extendContext_ex_fresh
      run_ex_accesses [symmetric], of True "Req 0" JNull]
    sessionOptions_read_only [OF extendContext_ex extendContext_ex_fresh
      run_ex_accesses [symmetric], of False "Req 2" JNull]
    extendContext_ex run_ex_accesses private_slot_ex_world2 new_ex_session
  by (simp add: write_property_def own_ex inherited_ex proto_desc_ex_context read_property_def
      read_ex_context getter_ex_world2 deref_ex_world2) (simp add: ex_world2_def ex_session_def)

end
